theory Spec2Isabelle
  imports Main
begin

section \<open>Strings\<close>

text \<open>
  A Python 3 \<^verbatim>\<open>str\<close> is a sequence of Unicode code points. It is modelled as a list of
  natural numbers, one per code point, so that equality, \<^verbatim>\<open>split\<close> and \<^verbatim>\<open>strip\<close> see
  exactly what Python sees. \<open>ascii\<close> writes an ASCII literal.
\<close>

type_synonym pystr = "nat list"

definition ascii :: "string \<Rightarrow> pystr" where
  "ascii s = map of_char s"

definition COMMA :: nat where
  "COMMA = 44"

text \<open>
  The code points that \<^verbatim>\<open>str.strip()\<close> removes when called without an argument
  (the Unicode whitespace of CPython).
\<close>

definition py_isspace :: "nat \<Rightarrow> bool" where
  "py_isspace c \<longleftrightarrow>
     (9 \<le> c \<and> c \<le> 13) \<or> (28 \<le> c \<and> c \<le> 32) \<or> c = 0x85 \<or> c = 0xA0 \<or> c = 0x1680 \<or>
     (0x2000 \<le> c \<and> c \<le> 0x200A) \<or> c = 0x2028 \<or> c = 0x2029 \<or> c = 0x202F \<or>
     c = 0x205F \<or> c = 0x3000"

definition py_lstrip :: "pystr \<Rightarrow> pystr" where
  "py_lstrip s = dropWhile py_isspace s"

definition py_rstrip :: "pystr \<Rightarrow> pystr" where
  "py_rstrip s = rev (dropWhile py_isspace (rev s))"

definition py_strip :: "pystr \<Rightarrow> pystr" where
  "py_strip s = py_rstrip (py_lstrip s)"

text \<open>
  \<^verbatim>\<open>s.split(sep)\<close> for a one-character separator: a left-to-right scan that closes the
  current segment at every separator. The empty string gives one empty segment.
\<close>

fun split_scan :: "nat \<Rightarrow> pystr \<Rightarrow> pystr \<Rightarrow> pystr list" where
  "split_scan sep cur [] = [cur]"
| "split_scan sep cur (c # cs) =
     (if c = sep then cur # split_scan sep [] cs else split_scan sep (cur @ [c]) cs)"

definition py_split :: "nat \<Rightarrow> pystr \<Rightarrow> pystr list" where
  "py_split sep s = split_scan sep [] s"

text \<open>\<^verbatim>\<open>sep.join(parts)\<close> for a one-character separator.\<close>

fun py_join :: "nat \<Rightarrow> pystr list \<Rightarrow> pystr" where
  "py_join sep [] = []"
| "py_join sep [p] = p"
| "py_join sep (p # q # ps) = p @ sep # py_join sep (q # ps)"

section \<open>The QR payload parser (qr\_scanner.py)\<close>

text \<open>The dictionary returned by \<^verbatim>\<open>parse_qr_code\<close>, with its four keys.\<close>

record qr_data =
  qr_code :: pystr
  imei :: pystr
  device_name :: pystr
  capacity :: pystr

text \<open>
  The padding loop \<^verbatim>\<open>while len(parts) < 4: parts.append('')\<close>.
\<close>

function pad_parts :: "pystr list \<Rightarrow> pystr list" where
  "pad_parts parts = (if length parts < 4 then pad_parts (parts @ [[]]) else parts)"
  by pat_completeness auto
termination
  by (relation "measure (\<lambda>parts. 4 - length parts)") auto

declare pad_parts.simps [simp del]

text \<open>
  \<^verbatim>\<open>parse_qr_code(qr_string)\<close>. The argument is \<open>None\<close> or a string; \<^verbatim>\<open>not qr_string\<close>
  holds for \<open>None\<close> and for the empty string. The result \<open>None\<close> is Python's \<^verbatim>\<open>None\<close>.
  Splitting and stripping a string raise nothing, so the handler of the source's
  \<^verbatim>\<open>try\<close> is never entered.
\<close>

definition parse_qr_code :: "pystr option \<Rightarrow> qr_data option" where
  "parse_qr_code qr_string =
     (case qr_string of
        None \<Rightarrow> None
      | Some s \<Rightarrow>
          if s = [] then None
          else
            let parts = py_split COMMA s;
                parts = map py_strip parts;
                parts = pad_parts parts
            in Some \<lparr>qr_code = (if length parts > 0 then parts ! 0 else []),
                     imei = (if length parts > 1 then parts ! 1 else []),
                     device_name = (if length parts > 2 then parts ! 2 else []),
                     capacity = (if length parts > 3 then parts ! 3 else [])\<rparr>)"

text \<open>
  Serialisation as the specification words it: the four fields joined with commas.
  The repository has no such function; this definition follows the specification.
\<close>

definition serialize_spec :: "qr_data \<Rightarrow> pystr" where
  "serialize_spec r = py_join COMMA [qr_code r, imei r, device_name r, capacity r]"

definition clean_field :: "pystr \<Rightarrow> bool" where
  "clean_field f \<longleftrightarrow>
     COMMA \<notin> set f \<and> (f = [] \<or> (\<not> py_isspace (hd f) \<and> \<not> py_isspace (last f)))"

section \<open>The storage layer (config.py, database.py)\<close>

text \<open>
  The status values of \<^verbatim>\<open>config.STATUS_VALUES\<close> and the messages of database.py, as the
  code points of the literals in the source.
\<close>

definition STATUS_SENT :: pystr where
  "STATUS_SENT = [0x110, 97, 110, 103, 32, 103, 0x1EED, 105]"

definition STATUS_RECEIVED :: pystr where
  "STATUS_RECEIVED = [0x110, 0xE3, 32, 110, 104, 0x1EAD, 110]"

definition STATUS_DAMAGED :: pystr where
  "STATUS_DAMAGED = [72, 0x1B0, 32, 104, 0x1ECF, 110, 103]"

definition STATUS_LOST :: pystr where
  "STATUS_LOST = [77, 0x1EA5, 116]"

definition STATUS_VALUES :: "pystr list" where
  "STATUS_VALUES = [STATUS_SENT, STATUS_RECEIVED, STATUS_DAMAGED, STATUS_LOST]"

definition DEFAULT_STATUS :: pystr where
  "DEFAULT_STATUS = STATUS_SENT"

definition ERR_DUPLICATE :: pystr where
  "ERR_DUPLICATE =
     [77, 0xE3, 32, 81, 82, 32, 0x111, 0xE3, 32, 116, 0x1ED3, 110, 32, 116, 0x1EA1, 105]"

definition ERR_NOT_FOUND :: pystr where
  "ERR_NOT_FOUND =
     [80, 104, 105, 0x1EBF, 117, 32, 107, 104, 0xF4, 110, 103, 32, 116, 0x1ED3, 110, 32,
      116, 0x1EA1, 105]"

text \<open>
  A clock reading. \<^verbatim>\<open>CURRENT_TIMESTAMP\<close> and \<^verbatim>\<open>datetime.now().isoformat()\<close> are read
  from the environment; every operation takes the reading as its argument \<open>now\<close>.
\<close>

type_synonym time = nat

text \<open>
  A row of table \<^verbatim>\<open>ShipmentDetails\<close>. It has the four columns of the parsed payload
  and the columns below; \<open>sid\<close> is column \<^verbatim>\<open>id\<close>. A nullable column is an option.
\<close>

record shipment = qr_data +
  sid :: nat
  supplier :: pystr
  status :: pystr
  sent_time :: time
  received_time :: "time option"
  created_by :: pystr
  updated_by :: "pystr option"
  "notes" :: "pystr option"
  image_url :: "pystr option"
  telegram_message_id :: "int option"

text \<open>A row of table \<^verbatim>\<open>AuditLog\<close>; \<open>aid\<close> is column \<^verbatim>\<open>id\<close>.\<close>

record audit_entry =
  aid :: nat
  shipment_id :: nat
  action :: pystr
  old_value :: "pystr option"
  new_value :: pystr
  changed_by :: pystr
  timestamp :: time

text \<open>A row of table \<^verbatim>\<open>Users\<close>.\<close>

record user =
  username :: pystr
  password :: pystr
  is_admin :: bool

text \<open>
  The database file: the rows of each table in insertion order, and for the two
  \<^verbatim>\<open>AUTOINCREMENT\<close> tables the last id handed out. Every statement is taken to
  execute; a failure of the storage engine itself is outside the model.
\<close>

record database =
  ShipmentDetails :: "shipment list"
  ShipmentDetails_seq :: nat
  AuditLog :: "audit_entry list"
  AuditLog_seq :: nat
  Users :: "user list"

text \<open>
  The result dictionaries. All have key \<^verbatim>\<open>'success'\<close>; those of the storage layer are
  \<^verbatim>\<open>{'success': .., 'error': ..}\<close>, and for \<^verbatim>\<open>save_shipment\<close> the same with key
  \<^verbatim>\<open>'id'\<close> (\<open>new_id\<close>).
\<close>

record outcome =
  success :: bool

record result = outcome +
  error :: "pystr option"

record save_result = result +
  new_id :: "nat option"

definition log_audit ::
  "database \<Rightarrow> nat \<Rightarrow> pystr \<Rightarrow> pystr option \<Rightarrow> pystr \<Rightarrow> pystr \<Rightarrow> time \<Rightarrow> database" where
  "log_audit db shipment_id' action' old_value' new_value' changed_by' now =
     db\<lparr>AuditLog := AuditLog db @
           [\<lparr>aid = Suc (AuditLog_seq db), shipment_id = shipment_id', action = action',
             old_value = old_value', new_value = new_value', changed_by = changed_by',
             timestamp = now\<rparr>],
        AuditLog_seq := Suc (AuditLog_seq db)\<rparr>"

definition get_shipment_by_qr_code :: "database \<Rightarrow> pystr \<Rightarrow> shipment option" where
  "get_shipment_by_qr_code db code = find (\<lambda>r. qr_code r = code) (ShipmentDetails db)"

text \<open>
  \<^verbatim>\<open>save_shipment\<close>. The \<^verbatim>\<open>INSERT\<close> violates the \<^verbatim>\<open>UNIQUE\<close> constraint of column
  \<^verbatim>\<open>qr_code\<close> when a row with the code exists; the \<^verbatim>\<open>IntegrityError\<close> handler returns
  the failure dictionary and the connection is closed with nothing committed. Otherwise
  the row is inserted with the column defaults (status, sent time, no received time),
  committed, and an audit entry is logged. The arguments are strings, as the callers
  pass them. The mirror to the spreadsheet that follows only reads the database and
  cannot fail the operation; it is not part of the model.
\<close>

definition save_shipment ::
  "database \<Rightarrow> pystr \<Rightarrow> pystr \<Rightarrow> pystr \<Rightarrow> pystr \<Rightarrow> pystr \<Rightarrow> pystr \<Rightarrow> pystr option \<Rightarrow>
   pystr option \<Rightarrow> time \<Rightarrow> save_result \<times> database" where
  "save_shipment db qr_code' imei' device_name' capacity' supplier' created_by' notes'
       image_url' now =
     (if \<exists>r \<in> set (ShipmentDetails db). qr_code r = qr_code' then
        (\<lparr>success = False, error = Some ERR_DUPLICATE, new_id = None\<rparr>, db)
      else
        let shipment_id = Suc (ShipmentDetails_seq db);
            row = \<lparr>qr_code = qr_code', imei = imei', device_name = device_name',
                   capacity = capacity', sid = shipment_id, supplier = supplier',
                   status = DEFAULT_STATUS, sent_time = now, received_time = None,
                   created_by = created_by', updated_by = None, notes = notes',
                   image_url = image_url', telegram_message_id = None\<rparr>;
            db1 = db\<lparr>ShipmentDetails := ShipmentDetails db @ [row],
                     ShipmentDetails_seq := shipment_id\<rparr>;
            db2 = log_audit db1 shipment_id (ascii ''CREATED'') None
                    (ascii ''Created shipment: '' @ qr_code') created_by' now
        in (\<lparr>success = True, error = None, new_id = Some shipment_id\<rparr>, db2))"

text \<open>
  \<^verbatim>\<open>update_shipment_status\<close>. The row is looked up by code; when there is none the
  failure dictionary is returned. Otherwise \<^verbatim>\<open>update_fields\<close> holds the new status and
  the actor, the received time when the new status is the literal of the received
  status, and the notes when they are truthy (not \<open>None\<close> and not empty); the
  \<^verbatim>\<open>UPDATE\<close> sets these columns on every row with the code, and one audit entry is
  logged with the status read before the update. The function does not compare the new
  status with the old one.
\<close>

definition truthy :: "pystr option \<Rightarrow> bool" where
  "truthy s \<longleftrightarrow> (case s of None \<Rightarrow> False | Some t \<Rightarrow> t \<noteq> [])"

definition apply_update_fields ::
  "pystr \<Rightarrow> pystr \<Rightarrow> pystr option \<Rightarrow> time \<Rightarrow> shipment \<Rightarrow> shipment" where
  "apply_update_fields new_status updated_by' notes' now r =
     r\<lparr>status := new_status,
       updated_by := Some updated_by',
       received_time := (if new_status = STATUS_RECEIVED then Some now else received_time r),
       notes := (if truthy notes' then notes' else notes r)\<rparr>"

definition update_shipment_status ::
  "database \<Rightarrow> pystr \<Rightarrow> pystr \<Rightarrow> pystr \<Rightarrow> pystr option \<Rightarrow> time \<Rightarrow> result \<times> database" where
  "update_shipment_status db qr_code' new_status updated_by' notes' now =
     (case find (\<lambda>r. qr_code r = qr_code') (ShipmentDetails db) of
        None \<Rightarrow> (\<lparr>success = False, error = Some ERR_NOT_FOUND\<rparr>, db)
      | Some found \<Rightarrow>
          let shipment_id = sid found;
              old_status = status found;
              db1 = db\<lparr>ShipmentDetails :=
                        map (\<lambda>r. if qr_code r = qr_code'
                                  then apply_update_fields new_status updated_by' notes' now r
                                  else r)
                          (ShipmentDetails db)\<rparr>;
              db2 = log_audit db1 shipment_id (ascii ''STATUS_CHANGED'') (Some old_status)
                      new_status updated_by' now
          in (\<lparr>success = True, error = None\<rparr>, db2))"

section \<open>The status update button (app.py)\<close>

text \<open>
  What the user is shown after pressing the update button of \<^verbatim>\<open>show_shipment_info\<close>
  (and of \<^verbatim>\<open>show_update_shipment_form\<close>, which has the same code): the success
  message, the error of the failed storage operation, or the warning that asks for a
  status other than the current one.
\<close>

datatype feedback = FbSuccess pystr | FbError "pystr option" | FbWarning

text \<open>
  The handler of the update button. \<open>shipment\<close> is the row the screen shows, as
  \<^verbatim>\<open>get_shipment_by_qr_code\<close> returned it; \<open>new_status\<close> is the selected value and
  \<open>notes_text\<close> the text area, passed on as \<^verbatim>\<open>notes if notes else None\<close>. The storage
  operation is called only when the selected status differs from the one shown;
  otherwise the warning is displayed and nothing else happens. The chat notification
  and the refresh of the screen that follow a successful update are not modelled.
\<close>

definition update_button_clicked ::
  "database \<Rightarrow> shipment \<Rightarrow> pystr \<Rightarrow> pystr \<Rightarrow> pystr \<Rightarrow> time \<Rightarrow> feedback \<times> database" where
  "update_button_clicked db shipment new_status current_user notes_text now =
     (let current_status = status shipment in
      if new_status \<noteq> current_status then
        (case update_shipment_status db (qr_code shipment) new_status current_user
                (if notes_text \<noteq> [] then Some notes_text else None) now of
           (res, db') \<Rightarrow>
             if success res then (FbSuccess new_status, db') else (FbError (error res), db'))
      else (FbWarning, db))"

section \<open>Sequences of requests\<close>

text \<open>
  A request to the storage layer: the creation of a shipment or a status transition, with
  the arguments of the two functions. \<open>run_requests\<close> serves a list of timed requests one
  after the other and returns every state the database goes through, the first one
  included. \<open>init_database\<close> is the database after \<^verbatim>\<open>init_database()\<close> on a new file: no
  shipment, no audit entry, the users seeded from \<^verbatim>\<open>config.USERS\<close>.
\<close>

datatype request =
    SaveShipment pystr pystr pystr pystr pystr pystr "pystr option" "pystr option"
  | UpdateShipmentStatus pystr pystr pystr "pystr option"

fun apply_request :: "database \<Rightarrow> time \<times> request \<Rightarrow> database" where
  "apply_request db (now, SaveShipment c i d k s u n img) =
     snd (save_shipment db c i d k s u n img now)"
| "apply_request db (now, UpdateShipmentStatus c ns u n) =
     snd (update_shipment_status db c ns u n now)"

fun run_requests :: "database \<Rightarrow> (time \<times> request) list \<Rightarrow> database list" where
  "run_requests db [] = [db]"
| "run_requests db (rq # rqs) = db # run_requests (apply_request db rq) rqs"

text \<open>
  \<^verbatim>\<open>config.USERS\<close>, the static credential table, in the order of the source.
\<close>

definition USERS :: "(pystr \<times> pystr) list" where
  "USERS = [(ascii ''admin'', ascii ''admin123''), (ascii ''user'', ascii ''user123''),
            (ascii ''staff'', ascii ''staff123'')]"

definition init_database :: database where
  "init_database =
     \<lparr>ShipmentDetails = [], ShipmentDetails_seq = 0, AuditLog = [], AuditLog_seq = 0,
      Users = map (\<lambda>(u, p). \<lparr>username = u, password = p, is_admin = (u = ascii ''admin'')\<rparr>)
                USERS\<rparr>"

text \<open>
  The status of the row with a given id has been the received value in one of the
  states.
\<close>

definition ever_received :: "database list \<Rightarrow> nat \<Rightarrow> bool" where
  "ever_received states i \<longleftrightarrow>
     (\<exists>st \<in> set states. \<exists>r \<in> set (ShipmentDetails st). sid r = i \<and> status r = STATUS_RECEIVED)"

text \<open>
  The consistency of the shipment table that every operation keeps: ids and codes are
  unique, no id exceeds the last one handed out, and a row whose status is the
  received value has a received time.
\<close>

definition consistent :: "database \<Rightarrow> bool" where
  "consistent db \<longleftrightarrow>
     distinct (map sid (ShipmentDetails db)) \<and>
     distinct (map qr_code (ShipmentDetails db)) \<and>
     (\<forall>r \<in> set (ShipmentDetails db). sid r \<le> ShipmentDetails_seq db) \<and>
     (\<forall>r \<in> set (ShipmentDetails db). status r = STATUS_RECEIVED \<longrightarrow> received_time r \<noteq> None)"

section \<open>Authentication (auth.py, database.py)\<close>

text \<open>
  \<^verbatim>\<open>get_user\<close> selects the row of table \<^verbatim>\<open>Users\<close> with the username (the primary
  key); \<^verbatim>\<open>set_user_password\<close> is the upsert of the source.
\<close>

definition get_user :: "database \<Rightarrow> pystr \<Rightarrow> user option" where
  "get_user db username' = find (\<lambda>r. username r = username') (Users db)"

definition set_user_password :: "database \<Rightarrow> pystr \<Rightarrow> pystr \<Rightarrow> bool \<Rightarrow> result \<times> database" where
  "set_user_password db username' password' is_admin' =
     (\<lparr>success = True, error = None\<rparr>,
      db\<lparr>Users :=
           (if \<exists>r \<in> set (Users db). username r = username'
            then map (\<lambda>r. if username r = username'
                          then r\<lparr>password := password', is_admin := is_admin'\<rparr> else r)
                   (Users db)
            else Users db @
                   [\<lparr>username = username', password = password', is_admin = is_admin'\<rparr>])\<rparr>)"

text \<open>
  \<^verbatim>\<open>check_login\<close>: the row of the user table first; when there is none, or its password
  is another one, the static table \<^verbatim>\<open>USERS\<close>.
\<close>

definition check_login :: "database \<Rightarrow> pystr \<Rightarrow> pystr \<Rightarrow> bool" where
  "check_login db username' password' =
     (let db_user = get_user db username' in
      if (case db_user of None \<Rightarrow> False | Some row \<Rightarrow> password row = password') then True
      else (case map_of USERS username' of None \<Rightarrow> False | Some p \<Rightarrow> p = password'))"

section \<open>The spreadsheet mirror (google\_sheets.py)\<close>














text \<open>
  The calls that \<^verbatim>\<open>setup_headers\<close> makes on the worksheet, in order: \<^verbatim>\<open>row_values(1)\<close>,
  and when the header row is missing or different, \<^verbatim>\<open>clear()\<close>, \<^verbatim>\<open>append_row(headers)\<close>
  and \<^verbatim>\<open>format(..)\<close>.
\<close>

datatype header_call = RowValuesCall | ClearCall | AppendRowCall | FormatCall














section \<open>The QR decode pipeline (qr\_scanner.py)\<close>

text \<open>
  The pipeline calls OpenCV, pyzbar and numpy. These libraries are not part of the
  repository: their behaviour is a parameter of the model, a record of functions on an
  image type \<open>'img\<close>. A call returns normally (\<open>Inr\<close>) or raises (\<open>Inl\<close>). The arguments
  that the source passes as constants are arguments of the functions, so that the model
  shows them.
\<close>

datatype raised = Raised pystr

datatype interpolation = INTER_NEAREST | INTER_LINEAR | INTER_CUBIC

datatype adaptive_method = ADAPTIVE_THRESH_MEAN_C | ADAPTIVE_THRESH_GAUSSIAN_C

record 'img library =
  CV2_AVAILABLE :: bool
  PYZBAR_AVAILABLE :: bool
  is_pil_image :: "'img \<Rightarrow> bool"
  np_array :: "'img \<Rightarrow> raised + 'img"
  shape :: "'img \<Rightarrow> nat list"
  cvtColor_RGB2GRAY :: "'img \<Rightarrow> raised + 'img"
  resize :: "'img \<Rightarrow> nat \<times> nat \<Rightarrow> interpolation \<Rightarrow> raised + 'img"
  threshold_BINARY :: "'img \<Rightarrow> nat \<Rightarrow> nat \<Rightarrow> raised + 'img"
  adaptiveThreshold_BINARY ::
    "'img \<Rightarrow> nat \<Rightarrow> adaptive_method \<Rightarrow> nat \<Rightarrow> int \<Rightarrow> raised + 'img"
  detectAndDecodeMulti :: "'img \<Rightarrow> raised + (bool \<times> pystr list)"
  detectAndDecode :: "'img \<Rightarrow> raised + pystr"
  pyzbar_decode :: "'img \<Rightarrow> raised + (raised + pystr) list"

text \<open>
  \<open>detectAndDecodeMulti\<close> gives \<^verbatim>\<open>retval\<close> and \<^verbatim>\<open>decoded_info\<close>, \<open>detectAndDecode\<close> gives
  \<^verbatim>\<open>data\<close>; the points and the rectified images, which the source ignores, are left out.
  \<open>pyzbar_decode\<close> gives for each decoded object the outcome of
  \<^verbatim>\<open>.data.decode('utf-8')\<close>.

  A library call, as it appears in the log of a run.
\<close>

datatype 'img lib_call =
    NpArray 'img
  | CvtColor 'img
  | Resize 'img "nat \<times> nat" interpolation
  | Threshold 'img nat nat
  | AdaptiveThreshold 'img nat adaptive_method nat int
  | DetectAndDecodeMulti 'img
  | DetectAndDecode 'img
  | PyzbarDecode 'img

text \<open>
  A run of a piece of the pipeline: the library calls it made, in order, and how it ended,
  with an exception or with a value. \<open>call\<close> makes one library call, \<open>bind\<close> sequences
  (an exception ends the run), \<open>try_except\<close> is \<^verbatim>\<open>try: .. except Exception: ..\<close>.
\<close>

type_synonym ('img, 'a) run = "'img lib_call list \<times> (raised + 'a)"

definition returns :: "'a \<Rightarrow> ('img, 'a) run" where
  "returns x = ([], Inr x)"

definition raises :: "raised \<Rightarrow> ('img, 'a) run" where
  "raises e = ([], Inl e)"

definition call :: "'img lib_call \<Rightarrow> raised + 'a \<Rightarrow> ('img, 'a) run" where
  "call c outcome = ([c], outcome)"

definition bind :: "('img, 'a) run \<Rightarrow> ('a \<Rightarrow> ('img, 'b) run) \<Rightarrow> ('img, 'b) run" where
  "bind m f =
     (case m of
        (log, Inl e) \<Rightarrow> (log, Inl e)
      | (log, Inr x) \<Rightarrow> (case f x of (log', r) \<Rightarrow> (log @ log', r)))"

definition try_except :: "('img, 'a) run \<Rightarrow> (raised \<Rightarrow> ('img, 'a) run) \<Rightarrow> ('img, 'a) run" where
  "try_except m handler =
     (case m of
        (log, Inl e) \<Rightarrow> (case handler e of (log', r) \<Rightarrow> (log @ log', r))
      | (log, Inr x) \<Rightarrow> (log, Inr x))"

text \<open>
  The grayscale step that opens three of the functions:
  \<^verbatim>\<open>gray = cv2.cvtColor(a, cv2.COLOR_RGB2GRAY) if len(a.shape) == 3 else a\<close>.
\<close>

definition to_gray :: "'img library \<Rightarrow> 'img \<Rightarrow> ('img, 'img) run" where
  "to_gray lib image_array =
     (if length (shape lib image_array) = 3
      then call (CvtColor image_array) (cvtColor_RGB2GRAY lib image_array)
      else returns image_array)"

text \<open>\<^verbatim>\<open>if data: return data\<close> and \<^verbatim>\<open>return None\<close> at the end of a function.\<close>

definition data_or_none :: "pystr \<Rightarrow> pystr option" where
  "data_or_none data = (if data \<noteq> [] then Some data else None)"

definition decode_grayscale_opencv :: "'img library \<Rightarrow> 'img \<Rightarrow> ('img, pystr option) run" where
  "decode_grayscale_opencv lib image_array =
     (if \<not> CV2_AVAILABLE lib then returns None
      else
        try_except (bind (to_gray lib image_array) (\<lambda>gray.
             bind (call (DetectAndDecode gray) (detectAndDecode lib gray)) (\<lambda>data.
             returns (data_or_none data))))
          (\<lambda>e. returns None))"

text \<open>
  \<^verbatim>\<open>decode_resized_opencv\<close>. Both branches resize to twice the width and height with cubic
  interpolation; unpacking \<^verbatim>\<open>image_array.shape\<close> into height and width raises when the
  shape has neither three nor two entries. The resized image goes to the detector as it
  is: there is no grayscale conversion in this function.
\<close>

definition decode_resized_opencv :: "'img library \<Rightarrow> 'img \<Rightarrow> ('img, pystr option) run" where
  "decode_resized_opencv lib image_array =
     (if \<not> CV2_AVAILABLE lib then returns None
      else
        try_except (bind
               (if length (shape lib image_array) = 3 \<or> length (shape lib image_array) = 2 then
                  let height = shape lib image_array ! 0;
                      width = shape lib image_array ! 1
                  in call (Resize image_array (width * 2, height * 2) INTER_CUBIC)
                       (resize lib image_array (width * 2, height * 2) INTER_CUBIC)
                else raises (Raised (ascii ''ValueError'')))
               (\<lambda>resized.
             bind (call (DetectAndDecode resized) (detectAndDecode lib resized)) (\<lambda>data.
             returns (data_or_none data))))
          (\<lambda>e. returns None))"

definition decode_binarized_opencv :: "'img library \<Rightarrow> 'img \<Rightarrow> ('img, pystr option) run" where
  "decode_binarized_opencv lib image_array =
     (if \<not> CV2_AVAILABLE lib then returns None
      else
        try_except (bind (to_gray lib image_array) (\<lambda>gray.
             bind (call (Threshold gray 127 255) (threshold_BINARY lib gray 127 255)) (\<lambda>binary.
             bind (call (AdaptiveThreshold gray 255 ADAPTIVE_THRESH_GAUSSIAN_C 11 2)
                     (adaptiveThreshold_BINARY lib gray 255 ADAPTIVE_THRESH_GAUSSIAN_C 11 2))
               (\<lambda>adaptive.
             bind (call (DetectAndDecode binary) (detectAndDecode lib binary)) (\<lambda>data.
             if data \<noteq> [] then returns (Some data)
             else
               bind (call (DetectAndDecode adaptive) (detectAndDecode lib adaptive)) (\<lambda>data2.
               returns (data_or_none data2)))))))
          (\<lambda>e. returns None))"

text \<open>
  ``Method 1'' of \<^verbatim>\<open>decode_qr_from_image\<close>: the detector on the grayscale image, the
  multi-code call and then the single-code call. The result \<open>Some s\<close> is the \<^verbatim>\<open>return s\<close>
  of the source; \<open>None\<close> means that the function goes on.
\<close>

definition opencv_method :: "'img library \<Rightarrow> 'img \<Rightarrow> ('img, pystr option) run" where
  "opencv_method lib image_array =
     (if CV2_AVAILABLE lib then
        try_except (bind (to_gray lib image_array) (\<lambda>gray.
             bind (call (DetectAndDecodeMulti gray) (detectAndDecodeMulti lib gray))
               (\<lambda>(retval, decoded_info).
             if retval \<and> decoded_info \<noteq> [] \<and> decoded_info ! 0 \<noteq> []
             then returns (Some (decoded_info ! 0))
             else
               bind (call (DetectAndDecode gray) (detectAndDecode lib gray)) (\<lambda>data.
               returns (data_or_none data)))))
          (\<lambda>e. returns None)
      else returns None)"

text \<open>
  ``Method 2'': pyzbar on the image as given. When the list of decoded objects is not
  empty, the text of the first one is returned, whether it is empty or not.
\<close>

definition pyzbar_method :: "'img library \<Rightarrow> 'img \<Rightarrow> ('img, pystr option) run" where
  "pyzbar_method lib image_array =
     (if PYZBAR_AVAILABLE lib then
        try_except (bind (call (PyzbarDecode image_array) (pyzbar_decode lib image_array))
               (\<lambda>decoded_objects.
             case decoded_objects of
               [] \<Rightarrow> returns None
             | first # _ \<Rightarrow>
                 (case first of Inl e \<Rightarrow> raises e | Inr result \<Rightarrow> returns (Some result))))
          (\<lambda>e. returns None)
      else returns None)"

text \<open>
  ``Method 3'': the loop over the three preprocessing functions. A result that is not
  truthy, or an exception, goes on to the next function.
\<close>

fun try_methods ::
  "('img \<Rightarrow> ('img, pystr option) run) list \<Rightarrow> 'img \<Rightarrow> ('img, pystr option) run" where
  "try_methods [] image_array = returns None"
| "try_methods (method # methods) image_array =
     bind (try_except (method image_array) (\<lambda>e. returns None)) (\<lambda>result.
     if truthy result then returns result else try_methods methods image_array)"

definition preprocessing_methods :: "'img library \<Rightarrow> 'img \<Rightarrow> ('img, pystr option) run" where
  "preprocessing_methods lib image_array =
     (if CV2_AVAILABLE lib then
        try_methods [decode_grayscale_opencv lib, decode_resized_opencv lib,
                     decode_binarized_opencv lib] image_array
      else returns None)"

text \<open>
  \<^verbatim>\<open>decode_qr_from_image\<close>: the conversion of a PIL image, the three methods in order, each
  returning from the function when it has a result, and the outer handler, which returns
  \<^verbatim>\<open>None\<close>.
\<close>

definition decode_qr_from_image :: "'img library \<Rightarrow> 'img \<Rightarrow> ('img, pystr option) run" where
  "decode_qr_from_image lib img =
     try_except (bind (if is_pil_image lib img then call (NpArray img) (np_array lib img)
                       else returns img) (\<lambda>image_array.
          bind (opencv_method lib image_array) (\<lambda>r1.
          case r1 of
            Some result \<Rightarrow> returns (Some result)
          | None \<Rightarrow>
          bind (pyzbar_method lib image_array) (\<lambda>r2.
          case r2 of
            Some result \<Rightarrow> returns (Some result)
          | None \<Rightarrow> preprocessing_methods lib image_array))))
       (\<lambda>e. returns None)"

section \<open>The decode pipeline as the specification words it\<close>

text \<open>
  A library whose calls all return normally: the same operations as total functions
  without exceptions. \<open>normal_library\<close> is the library record it stands for, with both
  OpenCV and pyzbar available.
\<close>

record 'img pure_library =
  pil :: "'img \<Rightarrow> bool"
  array_of :: "'img \<Rightarrow> 'img"
  shape_of :: "'img \<Rightarrow> nat list"
  gray_of :: "'img \<Rightarrow> 'img"
  resized_of :: "'img \<Rightarrow> nat \<times> nat \<Rightarrow> interpolation \<Rightarrow> 'img"
  binary_of :: "'img \<Rightarrow> nat \<Rightarrow> nat \<Rightarrow> 'img"
  adaptive_of :: "'img \<Rightarrow> nat \<Rightarrow> adaptive_method \<Rightarrow> nat \<Rightarrow> int \<Rightarrow> 'img"
  multi_of :: "'img \<Rightarrow> bool \<times> pystr list"
  single_of :: "'img \<Rightarrow> pystr"
  fallback_of :: "'img \<Rightarrow> pystr list"

definition normal_library :: "'img pure_library \<Rightarrow> 'img library" where
  "normal_library P =
     \<lparr>CV2_AVAILABLE = True, PYZBAR_AVAILABLE = True,
      is_pil_image = pil P,
      np_array = (\<lambda>a. Inr (array_of P a)),
      shape = shape_of P,
      cvtColor_RGB2GRAY = (\<lambda>a. Inr (gray_of P a)),
      resize = (\<lambda>a size' interp. Inr (resized_of P a size' interp)),
      threshold_BINARY = (\<lambda>a t m. Inr (binary_of P a t m)),
      adaptiveThreshold_BINARY = (\<lambda>a m meth b c. Inr (adaptive_of P a m meth b c)),
      detectAndDecodeMulti = (\<lambda>a. Inr (multi_of P a)),
      detectAndDecode = (\<lambda>a. Inr (single_of P a)),
      pyzbar_decode = (\<lambda>a. Inr (map Inr (fallback_of P a)))\<rparr>"

text \<open>
  A strategy of the chain: a decoder applied to a buffer, the primary detector with its
  multi-code or its single-code call, or the fallback library. \<open>yield\<close> is the string a
  strategy yields, empty when it finds nothing: for the multi-code call the first decoded
  string, for the fallback library the text of the first decoded object.
\<close>

datatype 'img strategy = Multi 'img | Single 'img | Fallback 'img

definition yield :: "'img pure_library \<Rightarrow> 'img strategy \<Rightarrow> pystr" where
  "yield P s =
     (case s of
        Multi g \<Rightarrow>
          (case multi_of P g of
             (retval, decoded_info) \<Rightarrow>
               if retval \<and> decoded_info \<noteq> [] then decoded_info ! 0 else [])
      | Single g \<Rightarrow> single_of P g
      | Fallback a \<Rightarrow> (case fallback_of P a of [] \<Rightarrow> [] | t # _ \<Rightarrow> t))"

text \<open>
  An ordered chain: the first strategy that yields a non-empty string wins, and the
  strategies after it are not tried.
\<close>

definition first_yield :: "'img pure_library \<Rightarrow> 'img strategy list \<Rightarrow> pystr option" where
  "first_yield P chain =
     (case dropWhile (\<lambda>s. yield P s = []) chain of [] \<Rightarrow> None | s # _ \<Rightarrow> Some (yield P s))"

definition tried :: "'img pure_library \<Rightarrow> 'img strategy list \<Rightarrow> 'img strategy list" where
  "tried P chain =
     takeWhile (\<lambda>s. yield P s = []) chain @ take 1 (dropWhile (\<lambda>s. yield P s = []) chain)"

definition grayscale :: "'img pure_library \<Rightarrow> 'img \<Rightarrow> 'img" where
  "grayscale P a = (if length (shape_of P a) = 3 then gray_of P a else a)"

definition upscaled_2x_cubic :: "'img pure_library \<Rightarrow> 'img \<Rightarrow> 'img" where
  "upscaled_2x_cubic P a =
     resized_of P a (shape_of P a ! 1 * 2, shape_of P a ! 0 * 2) INTER_CUBIC"

text \<open>
  The chain in the words of the specification: the variant with 2x cubic upscaling
  converts to grayscale after the upscaling.
\<close>

definition chain_as_specified :: "'img pure_library \<Rightarrow> 'img \<Rightarrow> 'img strategy list" where
  "chain_as_specified P a =
     (let gray = grayscale P a in
      [Multi gray, Single gray, Fallback a, Single gray,
       Single (grayscale P (upscaled_2x_cubic P a)),
       Single (binary_of P gray 127 255),
       Single (adaptive_of P gray 255 ADAPTIVE_THRESH_GAUSSIAN_C 11 2)])"

text \<open>The same chain with the upscaled image given to the detector as it is.\<close>

definition chain_without_gray_after_upscaling ::
  "'img pure_library \<Rightarrow> 'img \<Rightarrow> 'img strategy list" where
  "chain_without_gray_after_upscaling P a =
     (let gray = grayscale P a in
      [Multi gray, Single gray, Fallback a, Single gray,
       Single (upscaled_2x_cubic P a),
       Single (binary_of P gray 127 255),
       Single (adaptive_of P gray 255 ADAPTIVE_THRESH_GAUSSIAN_C 11 2)])"

text \<open>The decode calls of a log, as strategies, in the order in which they were made.\<close>

fun strategy_of :: "'img lib_call \<Rightarrow> 'img strategy option" where
  "strategy_of (DetectAndDecodeMulti g) = Some (Multi g)"
| "strategy_of (DetectAndDecode g) = Some (Single g)"
| "strategy_of (PyzbarDecode a) = Some (Fallback a)"
| "strategy_of _ = None"

definition strategies_run :: "'img lib_call list \<Rightarrow> 'img strategy list" where
  "strategies_run log = List.map_filter strategy_of log"

section \<open>Symbolic images\<close>

text \<open>
  An image type for examples: a captured image with its shape, and the images that the
  operations of the library make of it, each recording its arguments.
\<close>

datatype picture =
    Captured "nat list"
  | GrayOf picture
  | ResizedOf picture "nat \<times> nat" interpolation
  | BinaryOf picture nat nat
  | AdaptiveOf picture nat adaptive_method nat int

fun picture_shape :: "picture \<Rightarrow> nat list" where
  "picture_shape (Captured sh) = sh"
| "picture_shape (GrayOf p) = take 2 (picture_shape p)"
| "picture_shape (ResizedOf p (w, h) interp) = [h, w] @ drop 2 (picture_shape p)"
| "picture_shape (BinaryOf p t m) = picture_shape p"
| "picture_shape (AdaptiveOf p m meth b c) = picture_shape p"

text \<open>
  The symbolic library in which the detector's single-code call decodes the pictures of
  \<open>readable\<close> to \<open>text\<close> and nothing else is ever decoded.
\<close>

definition symbolic_library :: "picture list \<Rightarrow> pystr \<Rightarrow> picture pure_library" where
  "symbolic_library readable text =
     \<lparr>pil = (\<lambda>p. False), array_of = (\<lambda>p. p), shape_of = picture_shape,
      gray_of = GrayOf, resized_of = ResizedOf, binary_of = BinaryOf,
      adaptive_of = AdaptiveOf,
      multi_of = (\<lambda>p. (False, [])),
      single_of = (\<lambda>p. if p \<in> set readable then text else []),
      fallback_of = (\<lambda>p. [])\<rparr>"

definition photo :: picture where
  "photo = Captured [480, 640, 3]"










text \<open>
  The library of the counterexample to the chain as specified: the detector reads the
  photo only after 2x cubic upscaling followed by grayscale conversion. And the library
  of the example for the chain of the code: the detector reads the upscaled photo.
\<close>

definition reads_gray_of_upscaled :: "picture pure_library" where
  "reads_gray_of_upscaled =
     symbolic_library [GrayOf (ResizedOf photo (1280, 960) INTER_CUBIC)] (ascii ''QR'')"

definition reads_upscaled :: "picture pure_library" where
  "reads_upscaled = symbolic_library [ResizedOf photo (1280, 960) INTER_CUBIC] (ascii ''QR'')"

section \<open>Example data\<close>

text \<open>
  The shipment of the specification's scenario, as \<^verbatim>\<open>save_shipment\<close> stores it at time 1,
  the database that holds it, and a run that creates it, receives it and then reports
  it lost.
\<close>

definition demo_row :: shipment where
  "demo_row =
     \<lparr>qr_code = ascii ''ABC123'', imei = ascii ''IMEI001'', device_name = ascii ''iPhone 15'',
      capacity = ascii ''128GB'', sid = 1, supplier = ascii ''GHN'', status = STATUS_SENT,
      sent_time = 1, received_time = None, created_by = ascii ''admin'', updated_by = None,
      notes = None, image_url = None, telegram_message_id = None\<rparr>"

definition demo_db :: database where
  "demo_db =
     \<lparr>ShipmentDetails = [demo_row], ShipmentDetails_seq = 1,
      AuditLog = [\<lparr>aid = 1, shipment_id = 1, action = ascii ''CREATED'', old_value = None,
                  new_value = ascii ''Created shipment: ABC123'', changed_by = ascii ''admin'',
                  timestamp = 1\<rparr>],
      AuditLog_seq = 1, Users = []\<rparr>"

definition demo_requests :: "(time \<times> request) list" where
  "demo_requests =
     [(1, SaveShipment (ascii ''ABC123'') (ascii ''IMEI001'') (ascii ''iPhone 15'')
            (ascii ''128GB'') (ascii ''GHN'') (ascii ''admin'') None None),
      (2, UpdateShipmentStatus (ascii ''ABC123'') STATUS_RECEIVED (ascii ''user'') None),
      (3, UpdateShipmentStatus (ascii ''ABC123'') STATUS_LOST (ascii ''user'') None)]"

section \<open>Properties of the string operations\<close>

lemma split_scan_nonempty: "split_scan sep cur s \<noteq> []"
  by (induction s arbitrary: cur) auto

lemma split_scan_join:
  "py_join sep (split_scan sep cur s) = cur @ s"
proof (induction s arbitrary: cur)
  case Nil
  show ?case by simp
next
  case (Cons c cs)
  show ?case
  proof (cases "c = sep")
    case True
    have "split_scan sep [] cs \<noteq> []" by (rule split_scan_nonempty)
    then obtain q qs where "split_scan sep [] cs = q # qs" by (cases "split_scan sep [] cs") auto
    with Cons.IH [of "[]"] True show ?thesis by simp
  next
    case False
    with Cons.IH [of "cur @ [c]"] show ?thesis by simp
  qed
qed

lemma py_join_split: "py_join sep (py_split sep s) = s"
  by (simp add: py_split_def split_scan_join)

lemma split_scan_free:
  "sep \<notin> set cur \<Longrightarrow> \<forall>p \<in> set (split_scan sep cur s). sep \<notin> set p"
proof (induction s arbitrary: cur)
  case Nil
  then show ?case by simp
next
  case (Cons c cs)
  show ?case
  proof (cases "c = sep")
    case True
    with Cons.IH [of "[]"] Cons.prems show ?thesis by simp
  next
    case False
    with Cons.prems have "sep \<notin> set (cur @ [c])" by simp
    from Cons.IH [OF this] False show ?thesis by simp
  qed
qed

lemma py_split_free: "p \<in> set (py_split sep s) \<Longrightarrow> sep \<notin> set p"
  using split_scan_free [of sep "[]" s] by (simp add: py_split_def)

lemma py_split_nonempty: "py_split sep s \<noteq> []"
  by (simp add: py_split_def split_scan_nonempty)

lemma split_scan_no_sep:
  "sep \<notin> set s \<Longrightarrow> split_scan sep cur s = [cur @ s]"
  by (induction s arbitrary: cur) auto

lemma py_split_no_sep: "sep \<notin> set s \<Longrightarrow> py_split sep s = [s]"
  by (simp add: py_split_def split_scan_no_sep)

lemma split_scan_append_sep:
  "sep \<notin> set p \<Longrightarrow> split_scan sep cur (p @ sep # rest) = (cur @ p) # split_scan sep [] rest"
  by (induction p arbitrary: cur) auto

lemma py_split_join:
  "parts \<noteq> [] \<Longrightarrow> \<forall>p \<in> set parts. sep \<notin> set p \<Longrightarrow> py_split sep (py_join sep parts) = parts"
proof (induction sep parts rule: py_join.induct)
  case (1 sep)
  then show ?case by simp
next
  case (2 sep p)
  then show ?case by (simp add: py_split_no_sep)
next
  case (3 sep p q ps)
  from 3 have ih: "split_scan sep [] (py_join sep (q # ps)) = q # ps"
    by (simp add: py_split_def)
  from 3 have free: "sep \<notin> set p" by simp
  have "py_split sep (py_join sep (p # q # ps)) =
        split_scan sep [] (p @ sep # py_join sep (q # ps))"
    by (simp only: py_split_def py_join.simps)
  also have "\<dots> = ([] @ p) # split_scan sep [] (py_join sep (q # ps))"
    using free by (rule split_scan_append_sep)
  also have "\<dots> = p # q # ps"
    by (simp only: ih append_Nil)
  finally show ?case .
qed

lemma pad_parts_eq: "pad_parts parts = parts @ replicate (4 - length parts) []"
proof (induction parts rule: pad_parts.induct)
  case (1 parts)
  show ?case
  proof (cases "length parts < 4")
    case True
    then have e: "4 - length parts = Suc (4 - length (parts @ [[]]))" by simp
    have "pad_parts parts = pad_parts (parts @ [[]])"
      using True pad_parts.simps [of parts] by simp
    also have "\<dots> = (parts @ [[]]) @ replicate (4 - length (parts @ [[]])) []"
      using 1 True by simp
    also have "\<dots> = parts @ replicate (Suc (4 - length (parts @ [[]]))) []"
      by (simp only: append_assoc append_Cons append_Nil replicate_Suc)
    finally show ?thesis by (simp only: e)
  next
    case False
    then show ?thesis using pad_parts.simps [of parts] by simp
  qed
qed

lemma py_strip_clean:
  "f = [] \<or> (\<not> py_isspace (hd f) \<and> \<not> py_isspace (last f)) \<Longrightarrow> py_strip f = f"
proof (cases f)
  case Nil
  then show ?thesis by (simp add: py_strip_def py_lstrip_def py_rstrip_def)
next
  case (Cons a as)
  assume "f = [] \<or> (\<not> py_isspace (hd f) \<and> \<not> py_isspace (last f))"
  with Cons have h: "\<not> py_isspace a" and l: "\<not> py_isspace (last f)" by auto
  from Cons h have "py_lstrip f = f" by (simp add: py_lstrip_def)
  moreover have "hd (rev f) = last f"
    using Cons hd_rev [of f] by simp
  then have "dropWhile py_isspace (rev f) = rev f"
    using l by (simp only: dropWhile_eq_self_iff) simp
  ultimately show ?thesis by (simp add: py_strip_def py_rstrip_def)
qed

lemma parse_qr_code_some:
  assumes "s \<noteq> []"
  shows "parse_qr_code (Some s) =
    (let fs = take 4 (map py_strip (py_split COMMA s) @ replicate 4 [])
     in Some \<lparr>qr_code = fs ! 0, imei = fs ! 1, device_name = fs ! 2, capacity = fs ! 3\<rparr>)"
proof -
  let ?segs = "map py_strip (py_split COMMA s)"
  have pad: "pad_parts ?segs = ?segs @ replicate (4 - length ?segs) []" by (rule pad_parts_eq)
  have len: "4 \<le> length (pad_parts ?segs)" by (simp add: pad)
  then have gt: "0 < length (pad_parts ?segs)" "1 < length (pad_parts ?segs)"
    "2 < length (pad_parts ?segs)" "3 < length (pad_parts ?segs)" by auto
  have nth: "i < 4 \<Longrightarrow> pad_parts ?segs ! i = (?segs @ replicate 4 []) ! i" for i
    by (cases "i < length ?segs") (simp_all add: pad nth_append)
  have "parse_qr_code (Some s) =
      Some \<lparr>qr_code = pad_parts ?segs ! 0, imei = pad_parts ?segs ! 1,
            device_name = pad_parts ?segs ! 2, capacity = pad_parts ?segs ! 3\<rparr>"
    unfolding parse_qr_code_def Let_def
    using assms gt by (simp only: option.case if_False if_True)
  moreover have "pad_parts ?segs ! i = take 4 (?segs @ replicate 4 []) ! i" if "i < 4" for i
    using that nth [of i] by (simp only: nth_take)
  then have "pad_parts ?segs ! 0 = take 4 (?segs @ replicate 4 []) ! 0"
    "pad_parts ?segs ! 1 = take 4 (?segs @ replicate 4 []) ! 1"
    "pad_parts ?segs ! 2 = take 4 (?segs @ replicate 4 []) ! 2"
    "pad_parts ?segs ! 3 = take 4 (?segs @ replicate 4 []) ! 3" by simp_all
  ultimately show ?thesis unfolding Let_def by (simp only:)
qed


lemma py_strip_decomp:
  "\<exists>l r. p = l @ py_strip p @ r \<and> (\<forall>c \<in> set l. py_isspace c) \<and> (\<forall>c \<in> set r. py_isspace c)"
proof -
  let ?d = "dropWhile py_isspace p"
  have 1: "p = takeWhile py_isspace p @ ?d" by simp
  have "py_strip p @ rev (takeWhile py_isspace (rev ?d)) =
        rev (takeWhile py_isspace (rev ?d) @ dropWhile py_isspace (rev ?d))"
    by (simp only: rev_append py_strip_def py_lstrip_def py_rstrip_def)
  also have "\<dots> = rev (rev ?d)" by (simp only: takeWhile_dropWhile_id)
  also have "\<dots> = ?d" by (rule rev_rev_ident)
  finally have 2: "?d = py_strip p @ rev (takeWhile py_isspace (rev ?d))" by (rule sym)
  have 3: "\<forall>c \<in> set (takeWhile py_isspace p). py_isspace c"
    by (auto dest: set_takeWhileD)
  have 4: "\<forall>c \<in> set (rev (takeWhile py_isspace (rev ?d))). py_isspace c"
    by (auto dest: set_takeWhileD)
  have "p = takeWhile py_isspace p @ py_strip p @ rev (takeWhile py_isspace (rev ?d))"
    by (subst 1, subst 2) (simp only: takeWhile_dropWhile_id)
  with 3 4 show ?thesis by blast
qed

section \<open>The parser: claims C5 and C6\<close>

text \<open>
  Claim C5. For an absent or empty input \<open>parse_qr_code\<close> returns \<open>None\<close>. For every
  non-empty input it returns a dictionary of exactly four fields: the input is split at
  its commas (the segments are comma-free and joined with commas give the input back),
  each segment is stripped of whitespace, the first four are taken in order, missing
  trailing fields are empty strings and segments beyond the fourth are dropped. An input
  with no comma gives its stripped text as the code and three empty fields.
\<close>

theorem parse_qr_code_four_fields:
  "parse_qr_code None = None \<and> parse_qr_code (Some []) = None \<and>
   (s \<noteq> [] \<longrightarrow>
      py_join COMMA (py_split COMMA s) = s \<and>
      (\<forall>p \<in> set (py_split COMMA s). COMMA \<notin> set p) \<and>
      (let fs = take 4 (map py_strip (py_split COMMA s) @ replicate 4 [])
       in length fs = 4 \<and>
          parse_qr_code (Some s) =
            Some \<lparr>qr_code = fs ! 0, imei = fs ! 1, device_name = fs ! 2, capacity = fs ! 3\<rparr>)) \<and>
   (s \<noteq> [] \<and> COMMA \<notin> set s \<longrightarrow>
      parse_qr_code (Some s) =
        Some \<lparr>qr_code = py_strip s, imei = [], device_name = [], capacity = []\<rparr>)"
proof (intro conjI impI)
  show "parse_qr_code None = None" by (simp add: parse_qr_code_def)
  show "parse_qr_code (Some []) = None" by (simp add: parse_qr_code_def)
next
  assume "s \<noteq> []"
  show "py_join COMMA (py_split COMMA s) = s" by (rule py_join_split)
  show "\<forall>p \<in> set (py_split COMMA s). COMMA \<notin> set p" by (blast dest: py_split_free)
  show "let fs = take 4 (map py_strip (py_split COMMA s) @ replicate 4 [])
       in length fs = 4 \<and>
          parse_qr_code (Some s) =
            Some \<lparr>qr_code = fs ! 0, imei = fs ! 1, device_name = fs ! 2, capacity = fs ! 3\<rparr>"
    using parse_qr_code_some [OF \<open>s \<noteq> []\<close>] by (simp add: Let_def)
next
  assume a: "s \<noteq> [] \<and> COMMA \<notin> set s"
  then have "py_split COMMA s = [s]" by (simp add: py_split_no_sep)
  with a parse_qr_code_some [of s]
  show "parse_qr_code (Some s) =
        Some \<lparr>qr_code = py_strip s, imei = [], device_name = [], capacity = []\<rparr>"
    by (simp add: Let_def)
qed

theorem parse_qr_code_four_fields_witness:
  "ascii ''ABC123,IMEI001,iPhone 15,128GB'' \<noteq> [] \<and>
   parse_qr_code (Some (ascii ''ABC123,IMEI001,iPhone 15,128GB'')) =
     Some \<lparr>qr_code = ascii ''ABC123'', imei = ascii ''IMEI001'',
           device_name = ascii ''iPhone 15'', capacity = ascii ''128GB''\<rparr> \<and>
   COMMA \<notin> set (ascii '' ABC123 '') \<and>
   parse_qr_code (Some (ascii '' ABC123 '')) =
     Some \<lparr>qr_code = ascii ''ABC123'', imei = [], device_name = [], capacity = []\<rparr>"
  using parse_qr_code_four_fields [of "ascii ''ABC123,IMEI001,iPhone 15,128GB''"]
    parse_qr_code_four_fields [of "ascii '' ABC123 ''"]
  by (simp add: ascii_def py_split_def py_strip_def py_lstrip_def py_rstrip_def
      py_isspace_def COMMA_def Let_def)

text \<open>
  Claim C6. For every record whose four fields contain no comma and neither start nor end
  with whitespace, parsing the comma-joined fields gives the record back.
\<close>

theorem parse_serialize_roundtrip:
  fixes r :: qr_data
  assumes "clean_field (qr_code r)" "clean_field (imei r)"
    "clean_field (device_name r)" "clean_field (capacity r)"
  shows "parse_qr_code (Some (serialize_spec r)) = Some r"
proof -
  let ?fs = "[qr_code r, imei r, device_name r, capacity r]"
  have ne: "serialize_spec r \<noteq> []" by (simp add: serialize_spec_def)
  have "\<forall>p \<in> set ?fs. COMMA \<notin> set p" using assms by (simp add: clean_field_def)
  then have sp: "py_split COMMA (serialize_spec r) = ?fs"
    unfolding serialize_spec_def by (intro py_split_join) simp_all
  have st: "py_strip (qr_code r) = qr_code r" "py_strip (imei r) = imei r"
    "py_strip (device_name r) = device_name r" "py_strip (capacity r) = capacity r"
    using assms by (simp_all add: clean_field_def py_strip_clean)
  have "parse_qr_code (Some (serialize_spec r)) =
        Some \<lparr>qr_code = qr_code r, imei = imei r, device_name = device_name r,
              capacity = capacity r\<rparr>"
    using parse_qr_code_some [OF ne] by (simp add: sp st Let_def)
  then show ?thesis by simp
qed

theorem parse_serialize_roundtrip_witness:
  "clean_field (ascii ''ABC123'') \<and> clean_field (ascii ''iPhone 15'') \<and> clean_field [] \<and>
   parse_qr_code (Some (serialize_spec
       \<lparr>qr_code = ascii ''ABC123'', imei = [], device_name = ascii ''iPhone 15'',
        capacity = ascii ''128GB''\<rparr>)) =
     Some \<lparr>qr_code = ascii ''ABC123'', imei = [], device_name = ascii ''iPhone 15'',
           capacity = ascii ''128GB''\<rparr>"
  using parse_serialize_roundtrip
    [of "\<lparr>qr_code = ascii ''ABC123'', imei = [], device_name = ascii ''iPhone 15'',
         capacity = ascii ''128GB''\<rparr>"]
  by (simp add: clean_field_def ascii_def py_isspace_def COMMA_def)

section \<open>Properties of the storage layer\<close>

lemma find_map_update:
  assumes "\<And>r. key (f r) = key r"
  shows "find (\<lambda>r. key r = c) (map (\<lambda>r. if key r = c then f r else r) xs) =
         map_option f (find (\<lambda>r. key r = c) xs)"
  using assms by (induction xs) simp_all

lemma qr_code_apply_update_fields [simp]:
  "qr_code (apply_update_fields ns u n now r) = qr_code r"
  by (simp add: apply_update_fields_def)

lemma sid_apply_update_fields [simp]:
  "sid (apply_update_fields ns u n now r) = sid r"
  by (simp add: apply_update_fields_def)

lemma ShipmentDetails_log_audit [simp]:
  "ShipmentDetails (log_audit db i a ov nv u now) = ShipmentDetails db"
  by (simp add: log_audit_def)

lemma update_found:
  assumes "get_shipment_by_qr_code db code = Some r"
  shows "update_shipment_status db code ns u n now =
    (\<lparr>success = True, error = None\<rparr>,
     log_audit (db\<lparr>ShipmentDetails := map (\<lambda>r. if qr_code r = code then apply_update_fields ns u n now r else r) (ShipmentDetails db)\<rparr>)
       (sid r) (ascii ''STATUS_CHANGED'') (Some (status r)) ns u now)"
  using assms by (simp add: update_shipment_status_def get_shipment_by_qr_code_def Let_def)

lemma update_not_found:
  assumes "get_shipment_by_qr_code db code = None"
  shows "update_shipment_status db code ns u n now = (\<lparr>success = False, error = Some ERR_NOT_FOUND\<rparr>, db)"
  using assms by (simp add: update_shipment_status_def get_shipment_by_qr_code_def)

lemma ShipmentDetails_save:
  "ShipmentDetails (snd (save_shipment db c i d k s u n img now)) =
     (if \<exists>r \<in> set (ShipmentDetails db). qr_code r = c then ShipmentDetails db
      else ShipmentDetails db @
        [\<lparr>qr_code = c, imei = i, device_name = d, capacity = k,
          sid = Suc (ShipmentDetails_seq db), supplier = s, status = DEFAULT_STATUS,
          sent_time = now, received_time = None, created_by = u, updated_by = None,
          notes = n, image_url = img, telegram_message_id = None\<rparr>])"
  by (simp add: save_shipment_def Let_def)

lemma seq_save:
  "ShipmentDetails_seq (snd (save_shipment db c i d k s u n img now)) =
     (if \<exists>r \<in> set (ShipmentDetails db). qr_code r = c then ShipmentDetails_seq db
      else Suc (ShipmentDetails_seq db))"
  by (simp add: save_shipment_def Let_def log_audit_def)

lemma map_update_id:
  "\<forall>r \<in> set xs. key r \<noteq> c \<Longrightarrow> map (\<lambda>r. if key r = c then f r else r) xs = xs"
  by (induction xs) simp_all

lemma ball_map_iff: "(\<forall>r \<in> set (map g xs). P r) = (\<forall>r \<in> set xs. P (g r))"
  by simp

lemma ShipmentDetails_update:
  "ShipmentDetails (snd (update_shipment_status db c ns u n now)) =
     map (\<lambda>r. if qr_code r = c then apply_update_fields ns u n now r else r) (ShipmentDetails db)"
proof (cases "find (\<lambda>r. qr_code r = c) (ShipmentDetails db)")
  case None
  then have "\<forall>r \<in> set (ShipmentDetails db). qr_code r \<noteq> c" by (simp add: find_None_iff)
  then have "map (\<lambda>r. if qr_code r = c then apply_update_fields ns u n now r else r)
      (ShipmentDetails db) = ShipmentDetails db" by (rule map_update_id)
  with None show ?thesis by (simp add: update_shipment_status_def)
next
  case (Some r)
  then show ?thesis by (simp add: update_shipment_status_def Let_def)
qed

lemma seq_update:
  "ShipmentDetails_seq (snd (update_shipment_status db c ns u n now)) = ShipmentDetails_seq db"
  by (cases "find (\<lambda>r. qr_code r = c) (ShipmentDetails db)")
     (simp_all add: update_shipment_status_def Let_def log_audit_def)

lemma DEFAULT_STATUS_not_received: "DEFAULT_STATUS \<noteq> STATUS_RECEIVED"
  by (simp add: DEFAULT_STATUS_def STATUS_SENT_def STATUS_RECEIVED_def)

lemma consistent_save: 
  assumes "consistent db"
  shows "consistent (snd (save_shipment db c i d k s u n img now))"
proof (cases "\<exists>r \<in> set (ShipmentDetails db). qr_code r = c")
  case True
  with assms show ?thesis
    unfolding consistent_def by (simp add: ShipmentDetails_save seq_save)
next
  case False
  have 1: "Suc (ShipmentDetails_seq db) \<notin> sid ` set (ShipmentDetails db)"
    using assms unfolding consistent_def by force
  have 2: "c \<notin> qr_code ` set (ShipmentDetails db)" using False by force
  from assms 1 2 False show ?thesis
    unfolding consistent_def
    by (simp add: ShipmentDetails_save seq_save DEFAULT_STATUS_not_received le_SucI)
qed

lemma consistent_update:
  assumes "consistent db"
  shows "consistent (snd (update_shipment_status db c ns u n now))"
proof -
  let ?g = "\<lambda>r. if qr_code r = c then apply_update_fields ns u n now r else r"
  have s: "map sid (map ?g (ShipmentDetails db)) = map sid (ShipmentDetails db)"
    by (induction "ShipmentDetails db") simp_all
  have q: "map qr_code (map ?g (ShipmentDetails db)) = map qr_code (ShipmentDetails db)"
    by (induction "ShipmentDetails db") simp_all
  have sidg: "sid (?g x) = sid x" for x by simp
  have b: "\<forall>r \<in> set (map ?g (ShipmentDetails db)). sid r \<le> ShipmentDetails_seq db"
    unfolding ball_map_iff sidg using assms unfolding consistent_def by blast
  have stg: "status (?g x) = STATUS_RECEIVED \<longrightarrow> received_time (?g x) \<noteq> None"
    if "status x = STATUS_RECEIVED \<longrightarrow> received_time x \<noteq> None" for x
    using that by (simp add: apply_update_fields_def)
  have r: "\<forall>r \<in> set (map ?g (ShipmentDetails db)).
      status r = STATUS_RECEIVED \<longrightarrow> received_time r \<noteq> None"
    unfolding ball_map_iff using assms stg unfolding consistent_def by blast
  from assms s q b r show ?thesis
    unfolding consistent_def by (simp only: ShipmentDetails_update seq_update) 
qed

lemma consistent_apply_request: "consistent db \<Longrightarrow> consistent (apply_request db rq)"
proof (cases rq)
  case (Pair now q)
  assume "consistent db"
  then show ?thesis using Pair by (cases q) (simp_all add: consistent_save consistent_update)
qed

lemma consistent_init: "consistent init_database"
  by (simp add: consistent_def init_database_def)


lemma run_requests_nonempty: "run_requests db rqs \<noteq> []"
  by (cases rqs) simp_all

lemma hd_run_requests: "db \<in> set (run_requests db rqs)"
  by (cases rqs) simp_all

lemma stamped_or_kept:
  assumes "r' \<in> set (ShipmentDetails (apply_request db rq))" and "received_time r' \<noteq> None"
  shows "(\<exists>r0 \<in> set (ShipmentDetails db). sid r0 = sid r' \<and> received_time r0 \<noteq> None) \<or>
         status r' = STATUS_RECEIVED"
proof (cases rq)
  case (Pair now q)
  show ?thesis
  proof (cases q)
    case (SaveShipment c i d k s u n img)
    with Pair assms have "r' \<in> set (ShipmentDetails db)"
      by (auto simp: ShipmentDetails_save split: if_splits)
    with assms(2) show ?thesis by blast
  next
    case (UpdateShipmentStatus c ns u n)
    let ?g = "\<lambda>r. if qr_code r = c then apply_update_fields ns u n now r else r"
    from Pair UpdateShipmentStatus assms(1)
    have "r' \<in> ?g ` set (ShipmentDetails db)"
      by (simp only: apply_request.simps ShipmentDetails_update set_map)
    then obtain r0 where r0: "r0 \<in> set (ShipmentDetails db)" "r' = ?g r0" by blast
    show ?thesis
    proof (cases "qr_code r0 = c \<and> ns = STATUS_RECEIVED")
      case True
      with r0 have "status r' = STATUS_RECEIVED" by (simp add: apply_update_fields_def)
      then show ?thesis ..
    next
      case False
      with r0 assms(2) have "sid r0 = sid r' \<and> received_time r0 \<noteq> None"
        by (auto simp: apply_update_fields_def split: if_splits)
      with r0(1) show ?thesis by blast
    qed
  qed
qed

lemma never_cleared:
  assumes "r0 \<in> set (ShipmentDetails db)" and "received_time r0 \<noteq> None"
  shows "\<exists>r' \<in> set (ShipmentDetails (apply_request db rq)).
           sid r' = sid r0 \<and> received_time r' \<noteq> None"
proof (cases rq)
  case (Pair now q)
  show ?thesis
  proof (cases q)
    case (SaveShipment c i d k s u n img)
    with Pair assms(1) have "r0 \<in> set (ShipmentDetails (apply_request db rq))"
      by (simp add: ShipmentDetails_save)
    with assms(2) show ?thesis by blast
  next
    case (UpdateShipmentStatus c ns u n)
    let ?g = "\<lambda>r. if qr_code r = c then apply_update_fields ns u n now r else r"
    from assms(1) have "?g r0 \<in> ?g ` set (ShipmentDetails db)" by (rule imageI)
    with Pair UpdateShipmentStatus
    have 1: "?g r0 \<in> set (ShipmentDetails (apply_request db rq))"
      by (simp only: apply_request.simps ShipmentDetails_update set_map)
    have 2: "sid (?g r0) = sid r0" by simp
    have 3: "received_time (?g r0) \<noteq> None"
      using assms(2) by (simp add: apply_update_fields_def)
    from 1 2 3 show ?thesis by blast
  qed
qed

lemma same_sid_same_row:
  assumes "consistent db" "r \<in> set (ShipmentDetails db)" "r0 \<in> set (ShipmentDetails db)"
    "sid r0 = sid r"
  shows "r0 = r"
proof -
  from assms(1) have "inj_on sid (set (ShipmentDetails db))"
    by (simp add: consistent_def distinct_map)
  with assms(2-4) show ?thesis by (simp add: inj_on_def)
qed

lemma run_invariant:
  assumes "consistent db"
  shows "\<forall>r \<in> set (ShipmentDetails (last (run_requests db rqs))).
           (received_time r \<noteq> None) =
           ((\<exists>r0 \<in> set (ShipmentDetails db). sid r0 = sid r \<and> received_time r0 \<noteq> None) \<or>
            ever_received (run_requests db rqs) (sid r))"
  using assms
proof (induction rqs arbitrary: db)
  case Nil
  show ?case
  proof
    fix r assume r: "r \<in> set (ShipmentDetails (last (run_requests db [])))"
    then have rin: "r \<in> set (ShipmentDetails db)" by simp
    have same: "r0 = r" if "r0 \<in> set (ShipmentDetails db)" "sid r0 = sid r" for r0
      using same_sid_same_row [OF Nil rin that] .
    have rec: "status r = STATUS_RECEIVED \<longrightarrow> received_time r \<noteq> None"
      using Nil rin by (simp add: consistent_def)
    show "(received_time r \<noteq> None) =
           ((\<exists>r0 \<in> set (ShipmentDetails db). sid r0 = sid r \<and> received_time r0 \<noteq> None) \<or>
            ever_received (run_requests db []) (sid r))"
      unfolding ever_received_def using rin same rec by (simp only: run_requests.simps list.set ball_simps bex_simps) blast
  qed
next
  case (Cons rq rqs)
  let ?db' = "apply_request db rq"
  have c': "consistent ?db'" using Cons.prems by (rule consistent_apply_request)
  note IH = Cons.IH [OF c']
  have last: "last (run_requests db (rq # rqs)) = last (run_requests ?db' rqs)"
    by (simp add: run_requests_nonempty)
  show ?case
  proof
    fix r assume "r \<in> set (ShipmentDetails (last (run_requests db (rq # rqs))))"
    then have rin: "r \<in> set (ShipmentDetails (last (run_requests ?db' rqs)))"
      by (simp only: last)
    let ?A = "\<exists>r0 \<in> set (ShipmentDetails db). sid r0 = sid r \<and> received_time r0 \<noteq> None"
    let ?A' = "\<exists>r0 \<in> set (ShipmentDetails ?db'). sid r0 = sid r \<and> received_time r0 \<noteq> None"
    let ?E' = "ever_received (run_requests ?db' rqs) (sid r)"
    let ?S = "\<exists>r' \<in> set (ShipmentDetails db). sid r' = sid r \<and> status r' = STATUS_RECEIVED"
    have E: "ever_received (run_requests db (rq # rqs)) (sid r) = (?S \<or> ?E')"
      by (simp add: ever_received_def)
    from IH rin have ih: "(received_time r \<noteq> None) = (?A' \<or> ?E')" by blast
    have 1: "?A \<or> ?E'" if "?A'"
    proof -
      from that obtain r0 where r0: "r0 \<in> set (ShipmentDetails ?db')" "sid r0 = sid r"
        "received_time r0 \<noteq> None" by blast
      from stamped_or_kept [OF r0(1) r0(3)] show ?thesis
      proof
        assume "\<exists>r00 \<in> set (ShipmentDetails db). sid r00 = sid r0 \<and> received_time r00 \<noteq> None"
        with r0(2) show ?thesis by auto
      next
        assume "status r0 = STATUS_RECEIVED"
        with r0 hd_run_requests [of ?db' rqs] have ?E'
          unfolding ever_received_def by blast
        then show ?thesis ..
      qed
    qed
    have 2: "?A'" if "?A"
    proof -
      from that obtain r0 where r0: "r0 \<in> set (ShipmentDetails db)" "sid r0 = sid r"
        "received_time r0 \<noteq> None" by blast
      from never_cleared [OF r0(1) r0(3), of rq] r0(2) show ?thesis by auto
    qed
    have 3: "?A" if "?S"
    proof -
      from that obtain r' where r': "r' \<in> set (ShipmentDetails db)" "sid r' = sid r"
        "status r' = STATUS_RECEIVED" by blast
      with Cons.prems have "received_time r' \<noteq> None" by (simp add: consistent_def)
      with r' show ?thesis by blast
    qed
    from 1 2 3 have "(?A' \<or> ?E') = (?A \<or> ?S \<or> ?E')" by blast
    with ih E
    show "(received_time r \<noteq> None) =
           (?A \<or> ever_received (run_requests db (rq # rqs)) (sid r))" by (simp only:)
  qed
qed


lemma get_after_update:
  assumes "get_shipment_by_qr_code db code = Some r"
  shows "get_shipment_by_qr_code (snd (update_shipment_status db code ns u n now)) code =
           Some (apply_update_fields ns u n now r)"
  using assms find_map_update [of qr_code "apply_update_fields ns u n now" code "ShipmentDetails db"]
  by (simp add: get_shipment_by_qr_code_def ShipmentDetails_update)

text \<open>
  The storage operation on its own applies a request for the status that the record
  already has: it reports success, sets the updater and logs an audit entry.
\<close>

lemma update_shipment_status_same_status:
  assumes "get_shipment_by_qr_code db code = Some r"
  shows "fst (update_shipment_status db code (status r) u n now) =
           \<lparr>success = True, error = None\<rparr> \<and>
         get_shipment_by_qr_code (snd (update_shipment_status db code (status r) u n now)) code =
           Some (apply_update_fields (status r) u n now r) \<and>
         length (AuditLog (snd (update_shipment_status db code (status r) u n now))) =
           Suc (length (AuditLog db))"
  using get_after_update [OF assms, of "status r" u n now] update_found [OF assms, of "status r" u n now]
  by (simp add: log_audit_def)

section \<open>The shipment claims: C1 to C4\<close>

text \<open>
  Claim C1, as the code has it. The rejection of a request for the current status is made
  by the handler of the update button in app.py, against the status of the row that the
  screen shows: when the selected status equals it, the user gets the warning, the storage
  operation is not called, and the database, hence the record with its status, received
  time, notes and updater, is what it was. When the selected status differs, the handler
  calls the storage operation and the database is the one that operation leaves.
  \<open>update_shipment_status\<close> itself does not compare the requested status with the
  current one.
\<close>

theorem same_status_rejected_by_handler:
  "(new_status = status shipment \<longrightarrow>
      update_button_clicked db shipment new_status current_user notes_text now =
        (FbWarning, db)) \<and>
   (new_status \<noteq> status shipment \<longrightarrow>
      fst (update_button_clicked db shipment new_status current_user notes_text now) \<noteq>
        FbWarning \<and>
      snd (update_button_clicked db shipment new_status current_user notes_text now) =
        snd (update_shipment_status db (qr_code shipment) new_status current_user
               (if notes_text \<noteq> [] then Some notes_text else None) now))"
  by (simp add: update_button_clicked_def Let_def split: prod.splits)

theorem same_status_rejected_by_handler_witness:
  "STATUS_SENT = status demo_row \<and>
   update_button_clicked demo_db demo_row STATUS_SENT (ascii ''user'') (ascii ''again'') 5 =
     (FbWarning, demo_db) \<and>
   STATUS_RECEIVED \<noteq> status demo_row \<and>
   snd (update_button_clicked demo_db demo_row STATUS_RECEIVED (ascii ''user'') [] 5) =
     snd (update_shipment_status demo_db (ascii ''ABC123'') STATUS_RECEIVED (ascii ''user'')
            None 5)"
proof -
  have s: "STATUS_SENT = status demo_row" by (simp add: demo_row_def)
  have r: "STATUS_RECEIVED \<noteq> status demo_row"
    by (simp add: demo_row_def STATUS_RECEIVED_def STATUS_SENT_def)
  have q: "qr_code demo_row = ascii ''ABC123''" by (simp add: demo_row_def)
  from same_status_rejected_by_handler
    [of STATUS_SENT demo_row demo_db "ascii ''user''" "ascii ''again''" 5] s
  have 1: "update_button_clicked demo_db demo_row STATUS_SENT (ascii ''user'') (ascii ''again'') 5 =
     (FbWarning, demo_db)" by blast
  from same_status_rejected_by_handler
    [of STATUS_RECEIVED demo_row demo_db "ascii ''user''" "[]" 5] r
  have 2: "snd (update_button_clicked demo_db demo_row STATUS_RECEIVED (ascii ''user'') [] 5) =
     snd (update_shipment_status demo_db (ascii ''ABC123'') STATUS_RECEIVED (ascii ''user'')
            None 5)" by (simp add: q)
  from s 1 r 2 show ?thesis by (simp only: simp_thms)
qed

text \<open>
  The storage operation applies a request for the status that the record already has. The
  record of the example has the sent status; asking for the sent status again succeeds,
  sets the updater and the notes, and logs a second audit entry.
\<close>

theorem storage_applies_same_status_counterexample:
  "get_shipment_by_qr_code demo_db (ascii ''ABC123'') = Some demo_row \<and>
   status demo_row = STATUS_SENT \<and>
   fst (update_shipment_status demo_db (ascii ''ABC123'') STATUS_SENT (ascii ''user'')
          (Some (ascii ''again'')) 5) = \<lparr>success = True, error = None\<rparr> \<and>
   get_shipment_by_qr_code
       (snd (update_shipment_status demo_db (ascii ''ABC123'') STATUS_SENT (ascii ''user'')
               (Some (ascii ''again'')) 5)) (ascii ''ABC123'') =
     Some (demo_row\<lparr>updated_by := Some (ascii ''user''), notes := Some (ascii ''again'')\<rparr>) \<and>
   length (AuditLog (snd (update_shipment_status demo_db (ascii ''ABC123'') STATUS_SENT
                            (ascii ''user'') (Some (ascii ''again'')) 5))) = 2"
  by (simp add: get_shipment_by_qr_code_def update_shipment_status_def demo_db_def demo_row_def
      apply_update_fields_def log_audit_def truthy_def Let_def ascii_def STATUS_SENT_def
      STATUS_RECEIVED_def)

text \<open>
  Claim C2. A transition sets the status to the requested value and stamps the received
  time with the current time exactly when the requested value is the received status;
  otherwise the received time is left as it was, so a later transition away from
  received does not clear it. In every database reached from the initial one by
  creations and transitions, a record has a received time if and only if its status has
  been the received value in one of the states gone through.
\<close>

theorem received_time_iff_ever_received:
  "(get_shipment_by_qr_code db code = Some r \<longrightarrow>
      (\<exists>r'. get_shipment_by_qr_code (snd (update_shipment_status db code ns u n now)) code = Some r' \<and>
            status r' = ns \<and>
            received_time r' = (if ns = STATUS_RECEIVED then Some now else received_time r))) \<and>
   (\<forall>r \<in> set (ShipmentDetails (last (run_requests init_database rqs))).
      (received_time r \<noteq> None) = ever_received (run_requests init_database rqs) (sid r))"
proof (intro conjI impI)
  assume "get_shipment_by_qr_code db code = Some r"
  from get_after_update [OF this, of ns u n now]
  show "\<exists>r'. get_shipment_by_qr_code (snd (update_shipment_status db code ns u n now)) code = Some r' \<and>
            status r' = ns \<and>
            received_time r' = (if ns = STATUS_RECEIVED then Some now else received_time r)"
    by (simp add: apply_update_fields_def)
next
  have "ShipmentDetails init_database = []" by (simp add: init_database_def)
  with run_invariant [OF consistent_init, of rqs]
  show "\<forall>r \<in> set (ShipmentDetails (last (run_requests init_database rqs))).
      (received_time r \<noteq> None) = ever_received (run_requests init_database rqs) (sid r)"
    by simp
qed

theorem received_time_iff_ever_received_witness:
  "get_shipment_by_qr_code demo_db (ascii ''ABC123'') = Some demo_row \<and>
   (\<exists>r'. get_shipment_by_qr_code
           (snd (update_shipment_status demo_db (ascii ''ABC123'') STATUS_RECEIVED
                  (ascii ''user'') None 5)) (ascii ''ABC123'') = Some r' \<and>
         status r' = STATUS_RECEIVED \<and> received_time r' = Some 5) \<and>
   ShipmentDetails (last (run_requests init_database demo_requests)) =
     [demo_row\<lparr>status := STATUS_LOST, received_time := Some 2,
               updated_by := Some (ascii ''user'')\<rparr>] \<and>
   ever_received (run_requests init_database demo_requests) 1"
proof -
  have g: "get_shipment_by_qr_code demo_db (ascii ''ABC123'') = Some demo_row"
    by (simp add: get_shipment_by_qr_code_def demo_db_def demo_row_def ascii_def)
  have l: "ShipmentDetails (last (run_requests init_database demo_requests)) =
     [demo_row\<lparr>status := STATUS_LOST, received_time := Some 2,
               updated_by := Some (ascii ''user'')\<rparr>]"
    by (simp add: demo_requests_def demo_row_def init_database_def save_shipment_def
        update_shipment_status_def log_audit_def apply_update_fields_def Let_def truthy_def
        ascii_def STATUS_RECEIVED_def STATUS_LOST_def STATUS_SENT_def DEFAULT_STATUS_def)
  note t = received_time_iff_ever_received
    [of demo_db "ascii ''ABC123''" demo_row STATUS_RECEIVED "ascii ''user''" None 5
       demo_requests]
  from t g have 1: "\<exists>r'. get_shipment_by_qr_code
           (snd (update_shipment_status demo_db (ascii ''ABC123'') STATUS_RECEIVED
                  (ascii ''user'') None 5)) (ascii ''ABC123'') = Some r' \<and>
         status r' = STATUS_RECEIVED \<and> received_time r' = Some 5"
    by simp
  from t l have 2: "ever_received (run_requests init_database demo_requests) 1"
    by (simp add: demo_row_def)
  from g 1 l 2 show ?thesis by (simp only: simp_thms)
qed

text \<open>
  Claim C3. A status transition succeeds exactly when a record with the code exists, and
  every successful transition appends exactly one audit entry: its action is
  \<^verbatim>\<open>STATUS_CHANGED\<close>, its old value the status of the record before the transition, its
  new value the requested status and its actor the user making the change. This holds for
  every pair of status values.
\<close>

theorem transition_audit_entry:
  assumes "update_shipment_status db code new_status actor n now = (res, db')"
  shows "(success res \<longleftrightarrow> get_shipment_by_qr_code db code \<noteq> None) \<and>
     (success res \<longrightarrow>
        (\<exists>r. get_shipment_by_qr_code db code = Some r \<and>
           AuditLog db' = AuditLog db @
             [\<lparr>aid = Suc (AuditLog_seq db), shipment_id = sid r,
               action = ascii ''STATUS_CHANGED'', old_value = Some (status r),
               new_value = new_status, changed_by = actor, timestamp = now\<rparr>]))"
proof (cases "get_shipment_by_qr_code db code")
  case None
  with assms update_not_found [OF None, of new_status actor n now] show ?thesis by auto
next
  case (Some r)
  with assms update_found [OF Some, of new_status actor n now] show ?thesis
    by (auto simp: log_audit_def)
qed

theorem transition_audit_entry_witness:
  "success (fst (update_shipment_status demo_db (ascii ''ABC123'') STATUS_RECEIVED
       (ascii ''user'') None 5)) \<and>
   AuditLog (snd (update_shipment_status demo_db (ascii ''ABC123'') STATUS_RECEIVED
       (ascii ''user'') None 5)) =
     AuditLog demo_db @
       [\<lparr>aid = 2, shipment_id = 1, action = ascii ''STATUS_CHANGED'',
         old_value = Some STATUS_SENT, new_value = STATUS_RECEIVED,
         changed_by = ascii ''user'', timestamp = 5\<rparr>]"
proof -
  let ?out = "update_shipment_status demo_db (ascii ''ABC123'') STATUS_RECEIVED
       (ascii ''user'') None 5"
  have g: "get_shipment_by_qr_code demo_db (ascii ''ABC123'') = Some demo_row"
    by (simp add: get_shipment_by_qr_code_def demo_db_def demo_row_def ascii_def)
  have s: "success (fst ?out)"
    by (simp add: update_found [OF g])
  have e: "?out = (fst ?out, snd ?out)" by simp
  from transition_audit_entry [OF e] s g
  have "AuditLog (snd ?out) = AuditLog demo_db @
       [\<lparr>aid = Suc (AuditLog_seq demo_db), shipment_id = sid demo_row,
         action = ascii ''STATUS_CHANGED'', old_value = Some (status demo_row),
         new_value = STATUS_RECEIVED, changed_by = ascii ''user'', timestamp = 5\<rparr>]"
    by simp
  with s show ?thesis by (simp add: demo_db_def demo_row_def)
qed

text \<open>
  Claim C4. Creating a shipment with the code of an existing record fails: the result has
  success false and the duplicate-code error, no record is inserted, and the database
  with the existing record is returned unchanged.
\<close>

theorem duplicate_code_rejected:
  assumes "r \<in> set (ShipmentDetails db)" and "qr_code r = code"
  shows "save_shipment db code i d k s u n img now =
           (\<lparr>success = False, error = Some ERR_DUPLICATE, new_id = None\<rparr>, db)"
  using assms by (auto simp: save_shipment_def)


theorem duplicate_code_rejected_witness:
  "demo_row \<in> set (ShipmentDetails demo_db) \<and> qr_code demo_row = ascii ''ABC123'' \<and>
   save_shipment demo_db (ascii ''ABC123'') (ascii ''IMEI999'') (ascii ''Pixel'') (ascii ''64GB'')
       (ascii ''GHN'') (ascii ''user'') None None 7 =
     (\<lparr>success = False, error = Some ERR_DUPLICATE, new_id = None\<rparr>, demo_db)"
  using duplicate_code_rejected
    [of demo_row demo_db "ascii ''ABC123''" "ascii ''IMEI999''" "ascii ''Pixel''" "ascii ''64GB''"
       "ascii ''GHN''" "ascii ''user''" None None 7]
  by (simp add: demo_db_def demo_row_def)

section \<open>The login check: claim C10\<close>

lemma get_user_after_set:
  "get_user (snd (set_user_password db u p adm)) u \<noteq> None"
proof (cases "\<exists>r \<in> set (Users db). username r = u")
  case True
  then obtain r where "r \<in> set (Users db)" "username r = u" by blast
  then have "r\<lparr>password := p, is_admin := adm\<rparr> \<in>
      set (map (\<lambda>r. if username r = u then r\<lparr>password := p, is_admin := adm\<rparr> else r) (Users db))"
    by force
  moreover have "username (r\<lparr>password := p, is_admin := adm\<rparr>) = u"
    using \<open>username r = u\<close> by simp
  ultimately show ?thesis
    using True unfolding get_user_def set_user_password_def find_None_iff by auto
next
  case False
  then show ?thesis
    unfolding get_user_def set_user_password_def find_None_iff by auto
qed

text \<open>
  Claim C10. The login check succeeds if and only if the password is the one stored in
  the user table for the username or the one the static table gives it. So for a username
  of the static table the static password is accepted whatever password the user table
  stores: setting another password in the database does not revoke it.
\<close>

theorem check_login_static_fallback:
  "(check_login db u p \<longleftrightarrow>
      (\<exists>row. get_user db u = Some row \<and> password row = p) \<or> map_of USERS u = Some p) \<and>
   (map_of USERS u = Some sp \<longrightarrow>
      get_user (snd (set_user_password db u q adm)) u \<noteq> None \<and>
      check_login (snd (set_user_password db u q adm)) u sp)"
proof -
  have iff: "check_login d u p' \<longleftrightarrow>
      (\<exists>row. get_user d u = Some row \<and> password row = p') \<or> map_of USERS u = Some p'"
    for d p'
    by (cases "get_user d u"; cases "map_of USERS u") (auto simp: check_login_def Let_def)
  from iff [of "snd (set_user_password db u q adm)" sp] iff [of db p] get_user_after_set [of db u q adm]
  show ?thesis by blast
qed

theorem check_login_static_fallback_witness:
  "map_of USERS (ascii ''admin'') = Some (ascii ''admin123'') \<and>
   get_user (snd (set_user_password init_database (ascii ''admin'') (ascii ''s3cret'') True))
       (ascii ''admin'') =
     Some \<lparr>username = ascii ''admin'', password = ascii ''s3cret'', is_admin = True\<rparr> \<and>
   check_login (snd (set_user_password init_database (ascii ''admin'') (ascii ''s3cret'') True))
       (ascii ''admin'') (ascii ''admin123'')"
proof -
  have m: "map_of USERS (ascii ''admin'') = Some (ascii ''admin123'')"
    by (simp add: USERS_def ascii_def)
  have g: "get_user (snd (set_user_password init_database (ascii ''admin'') (ascii ''s3cret'') True))
       (ascii ''admin'') =
     Some \<lparr>username = ascii ''admin'', password = ascii ''s3cret'', is_admin = True\<rparr>"
    by (simp add: get_user_def set_user_password_def init_database_def USERS_def ascii_def)
  from check_login_static_fallback
    [of init_database "ascii ''admin''" "ascii ''admin123''" "ascii ''admin123''"
       "ascii ''s3cret''" True] m
  have "check_login (snd (set_user_password init_database (ascii ''admin'') (ascii ''s3cret'') True))
       (ascii ''admin'') (ascii ''admin123'')" by blast
  with m g show ?thesis by (simp only: simp_thms)
qed

section \<open>The spreadsheet mirror: claim C9\<close>








section \<open>Properties of the decode pipeline\<close>

lemma bind_returns: "bind (returns x) f = f x"
  by (simp add: bind_def returns_def split: prod.splits)

lemma bind_call_Inr: "bind (call c (Inr x)) f = (c # fst (f x), snd (f x))"
  by (simp add: bind_def call_def split: prod.splits)


lemma bind_raises: "bind (raises e) f = ([], Inl e)"
  by (simp add: bind_def raises_def)

lemma try_except_Inr: "try_except (log, Inr x) h = (log, Inr x)"
  by (simp add: try_except_def)


lemma fst_returns: "fst (returns x) = []" and snd_returns: "snd (returns x) = Inr x"
  by (simp_all add: returns_def)

lemma bind_Inr:
  assumes "snd m = Inr x"
  shows "bind m f = (fst m @ fst (f x), snd (f x))"
  using assms by (cases m) (simp add: bind_def split: prod.splits)

lemma bind_Inl:
  assumes "snd m = Inl e"
  shows "bind m f = (fst m, Inl e)"
  using assms by (cases m) (simp add: bind_def)

lemma strategies_run_append:
  "strategies_run (xs @ ys) = strategies_run xs @ strategies_run ys"
  by (simp add: strategies_run_def map_filter_def)

lemma strategies_run_simps:
  "strategies_run [] = []"
  "strategies_run (NpArray a # log) = strategies_run log"
  "strategies_run (CvtColor a # log) = strategies_run log"
  "strategies_run (Resize a sz i # log) = strategies_run log"
  "strategies_run (Threshold a t m # log) = strategies_run log"
  "strategies_run (AdaptiveThreshold a m meth b c # log) = strategies_run log"
  "strategies_run (DetectAndDecodeMulti a # log) = Multi a # strategies_run log"
  "strategies_run (DetectAndDecode a # log) = Single a # strategies_run log"
  "strategies_run (PyzbarDecode a # log) = Fallback a # strategies_run log"
  by (simp_all add: strategies_run_def map_filter_def)

lemma first_yield_simps:
  "first_yield P [] = None"
  "first_yield P (s # chain) = (if yield P s = [] then first_yield P chain else Some (yield P s))"
  by (simp_all add: first_yield_def)

lemma tried_simps:
  "tried P [] = []"
  "tried P (s # chain) = (if yield P s = [] then s # tried P chain else [s])"
  by (simp_all add: tried_def)

lemma first_yield_nonempty: "first_yield P chain = Some r \<Longrightarrow> r \<noteq> []"
  by (induction chain) (simp_all add: first_yield_simps split: if_splits)

lemma first_yield_append:
  "first_yield P (xs @ ys) =
     (case first_yield P xs of Some r \<Rightarrow> Some r | None \<Rightarrow> first_yield P ys)"
  by (induction xs) (simp_all add: first_yield_simps)

lemma tried_append:
  "tried P (xs @ ys) =
     (case first_yield P xs of Some r \<Rightarrow> tried P xs | None \<Rightarrow> tried P xs @ tried P ys)"
  by (induction xs) (simp_all add: first_yield_simps tried_simps split: option.splits)

lemma normal_library_simps:
  "CV2_AVAILABLE (normal_library P)" "PYZBAR_AVAILABLE (normal_library P)"
  "is_pil_image (normal_library P) = pil P"
  "np_array (normal_library P) a = Inr (array_of P a)"
  "shape (normal_library P) = shape_of P"
  "cvtColor_RGB2GRAY (normal_library P) a = Inr (gray_of P a)"
  "resize (normal_library P) a sz i = Inr (resized_of P a sz i)"
  "threshold_BINARY (normal_library P) a t m = Inr (binary_of P a t m)"
  "adaptiveThreshold_BINARY (normal_library P) a m meth b c = Inr (adaptive_of P a m meth b c)"
  "detectAndDecodeMulti (normal_library P) a = Inr (multi_of P a)"
  "detectAndDecode (normal_library P) a = Inr (single_of P a)"
  "pyzbar_decode (normal_library P) a = Inr (map Inr (fallback_of P a))"
  by (simp_all add: normal_library_def)

lemma to_gray_normal:
  "snd (to_gray (normal_library P) a) = Inr (grayscale P a)"
  "strategies_run (fst (to_gray (normal_library P) a)) = []"
  by (simp_all add: to_gray_def grayscale_def normal_library_simps call_def returns_def
      strategies_run_simps)

lemma data_or_none_yield: "data_or_none (single_of P g) = first_yield P [Single g]"
  by (simp add: data_or_none_def first_yield_simps yield_def)

lemma opencv_method_normal:
  "snd (opencv_method (normal_library P) a) =
     Inr (first_yield P [Multi (grayscale P a), Single (grayscale P a)])"
  "strategies_run (fst (opencv_method (normal_library P) a)) =
     tried P [Multi (grayscale P a), Single (grayscale P a)]"
proof -
  let ?g = "grayscale P a"
  obtain retval decoded_info where m: "multi_of P ?g = (retval, decoded_info)"
    by (cases "multi_of P ?g")
  have y: "yield P (Multi ?g) = (if retval \<and> decoded_info \<noteq> [] then decoded_info ! 0 else [])"
    by (simp add: yield_def m)
  have body: "opencv_method (normal_library P) a =
      (fst (to_gray (normal_library P) a) @ DetectAndDecodeMulti ?g #
         (if yield P (Multi ?g) \<noteq> [] then [] else [DetectAndDecode ?g]),
       Inr (if yield P (Multi ?g) \<noteq> [] then Some (yield P (Multi ?g))
            else data_or_none (single_of P ?g)))"
    by (simp add: opencv_method_def normal_library_simps bind_Inr [OF to_gray_normal(1)]
        bind_call_Inr m y try_except_Inr fst_returns snd_returns)
  show "snd (opencv_method (normal_library P) a) = Inr (first_yield P [Multi ?g, Single ?g])"
    by (simp add: body first_yield_simps data_or_none_yield)
  show "strategies_run (fst (opencv_method (normal_library P) a)) = tried P [Multi ?g, Single ?g]"
    by (simp add: body strategies_run_append strategies_run_simps to_gray_normal(2) tried_simps)
qed


lemma pyzbar_method_normal:
  assumes "\<forall>t ts. fallback_of P a = t # ts \<longrightarrow> t \<noteq> []"
  shows "snd (pyzbar_method (normal_library P) a) = Inr (first_yield P [Fallback a])"
    and "strategies_run (fst (pyzbar_method (normal_library P) a)) = tried P [Fallback a]"
proof -
  have body: "pyzbar_method (normal_library P) a =
      ([PyzbarDecode a], Inr (case fallback_of P a of [] \<Rightarrow> None | t # _ \<Rightarrow> Some t))"
    by (cases "fallback_of P a")
       (simp_all add: pyzbar_method_def normal_library_simps bind_call_Inr try_except_Inr
          fst_returns snd_returns)
  show "snd (pyzbar_method (normal_library P) a) = Inr (first_yield P [Fallback a])"
    using assms by (cases "fallback_of P a") (simp_all add: body first_yield_simps yield_def)
  show "strategies_run (fst (pyzbar_method (normal_library P) a)) = tried P [Fallback a]"
    by (simp add: body strategies_run_simps tried_simps)
qed

lemma decode_grayscale_opencv_normal:
  "snd (decode_grayscale_opencv (normal_library P) a) = Inr (first_yield P [Single (grayscale P a)])"
  "strategies_run (fst (decode_grayscale_opencv (normal_library P) a)) =
     tried P [Single (grayscale P a)]"
proof -
  let ?g = "grayscale P a"
  have body: "decode_grayscale_opencv (normal_library P) a =
      (fst (to_gray (normal_library P) a) @ [DetectAndDecode ?g],
       Inr (data_or_none (single_of P ?g)))"
    by (simp add: decode_grayscale_opencv_def normal_library_simps
        bind_Inr [OF to_gray_normal(1)] bind_call_Inr try_except_Inr fst_returns snd_returns)
  show "snd (decode_grayscale_opencv (normal_library P) a) = Inr (first_yield P [Single ?g])"
    by (simp add: body data_or_none_yield)
  show "strategies_run (fst (decode_grayscale_opencv (normal_library P) a)) = tried P [Single ?g]"
    by (simp add: body strategies_run_append strategies_run_simps to_gray_normal(2) tried_simps)
qed

lemma decode_resized_opencv_normal:
  assumes "length (shape_of P a) = 2 \<or> length (shape_of P a) = 3"
  shows "snd (decode_resized_opencv (normal_library P) a) =
           Inr (first_yield P [Single (upscaled_2x_cubic P a)])"
    and "strategies_run (fst (decode_resized_opencv (normal_library P) a)) =
           tried P [Single (upscaled_2x_cubic P a)]"
proof -
  let ?u = "upscaled_2x_cubic P a"
  have body: "decode_resized_opencv (normal_library P) a =
      ([Resize a (shape_of P a ! 1 * 2, shape_of P a ! 0 * 2) INTER_CUBIC, DetectAndDecode ?u],
       Inr (data_or_none (single_of P ?u)))"
    using assms
    by (auto simp: decode_resized_opencv_def normal_library_simps Let_def upscaled_2x_cubic_def
        bind_call_Inr try_except_Inr fst_returns snd_returns)
  show "snd (decode_resized_opencv (normal_library P) a) = Inr (first_yield P [Single ?u])"
    by (simp add: body data_or_none_yield)
  show "strategies_run (fst (decode_resized_opencv (normal_library P) a)) = tried P [Single ?u]"
    by (simp add: body strategies_run_simps tried_simps)
qed

lemma decode_binarized_opencv_normal:
  "snd (decode_binarized_opencv (normal_library P) a) =
     Inr (first_yield P [Single (binary_of P (grayscale P a) 127 255),
                         Single (adaptive_of P (grayscale P a) 255 ADAPTIVE_THRESH_GAUSSIAN_C 11 2)])"
  "strategies_run (fst (decode_binarized_opencv (normal_library P) a)) =
     tried P [Single (binary_of P (grayscale P a) 127 255),
              Single (adaptive_of P (grayscale P a) 255 ADAPTIVE_THRESH_GAUSSIAN_C 11 2)]"
proof -
  let ?g = "grayscale P a"
  let ?b = "binary_of P ?g 127 255"
  let ?ad = "adaptive_of P ?g 255 ADAPTIVE_THRESH_GAUSSIAN_C 11 2"
  have body: "decode_binarized_opencv (normal_library P) a =
      (fst (to_gray (normal_library P) a) @
         [Threshold ?g 127 255, AdaptiveThreshold ?g 255 ADAPTIVE_THRESH_GAUSSIAN_C 11 2,
          DetectAndDecode ?b] @ (if single_of P ?b \<noteq> [] then [] else [DetectAndDecode ?ad]),
       Inr (if single_of P ?b \<noteq> [] then Some (single_of P ?b)
            else data_or_none (single_of P ?ad)))"
    by (simp add: decode_binarized_opencv_def normal_library_simps
        bind_Inr [OF to_gray_normal(1)] bind_call_Inr try_except_Inr fst_returns snd_returns)
  show "snd (decode_binarized_opencv (normal_library P) a) =
     Inr (first_yield P [Single ?b, Single ?ad])"
    by (simp add: body first_yield_simps yield_def data_or_none_def)
  show "strategies_run (fst (decode_binarized_opencv (normal_library P) a)) =
     tried P [Single ?b, Single ?ad]"
    by (simp add: body strategies_run_append strategies_run_simps to_gray_normal(2) tried_simps
        yield_def)
qed

lemma truthy_first_yield: "truthy (first_yield P chain) \<longleftrightarrow> first_yield P chain \<noteq> None"
  by (cases "first_yield P chain") (auto simp: truthy_def dest: first_yield_nonempty)

text \<open>One round of the loop, for a method that returns what a chain of strategies yields.\<close>

lemma try_methods_step:
  assumes "snd (m a) = Inr (first_yield P c)" and "strategies_run (fst (m a)) = tried P c"
    and "snd (try_methods ms a) = Inr (first_yield P cs)"
    and "strategies_run (fst (try_methods ms a)) = tried P cs"
  shows "snd (try_methods (m # ms) a) = Inr (first_yield P (c @ cs))"
    and "strategies_run (fst (try_methods (m # ms) a)) = tried P (c @ cs)"
proof -
  have t: "try_except (m a) (\<lambda>e. returns None) = m a"
    using assms(1) by (cases "m a") (simp add: try_except_Inr)
  have b: "try_methods (m # ms) a =
     (fst (m a) @ fst (if truthy (first_yield P c) then returns (first_yield P c)
                       else try_methods ms a),
      snd (if truthy (first_yield P c) then returns (first_yield P c) else try_methods ms a))"
    by (simp only: try_methods.simps t bind_Inr [OF assms(1)])
  show "snd (try_methods (m # ms) a) = Inr (first_yield P (c @ cs))"
  proof (cases "first_yield P c")
    case None
    then show ?thesis unfolding b using assms(3)
      by (simp add: truthy_def first_yield_append)
  next
    case (Some r)
    then have "truthy (first_yield P c)" unfolding truthy_first_yield by simp
    then show ?thesis unfolding b using Some
      by (simp add: first_yield_append snd_returns)
  qed
  show "strategies_run (fst (try_methods (m # ms) a)) = tried P (c @ cs)"
  proof (cases "first_yield P c")
    case None
    then show ?thesis unfolding b using assms(2,4)
      by (simp add: truthy_def tried_append strategies_run_append)
  next
    case (Some r)
    then have "truthy (first_yield P c)" unfolding truthy_first_yield by simp
    then show ?thesis unfolding b using Some assms(2)
      by (simp add: tried_append strategies_run_append fst_returns strategies_run_simps)
  qed
qed

lemma try_methods_nil:
  "snd (try_methods [] a) = Inr (first_yield P [])"
  "strategies_run (fst (try_methods [] a)) = tried P []"
  by (simp_all add: returns_def first_yield_simps tried_simps strategies_run_simps)

lemma preprocessing_methods_normal:
  assumes "length (shape_of P a) = 2 \<or> length (shape_of P a) = 3"
  shows "snd (preprocessing_methods (normal_library P) a) =
     Inr (first_yield P
       ([Single (grayscale P a)] @ [Single (upscaled_2x_cubic P a)] @
        [Single (binary_of P (grayscale P a) 127 255),
         Single (adaptive_of P (grayscale P a) 255 ADAPTIVE_THRESH_GAUSSIAN_C 11 2)] @ []))"
    and "strategies_run (fst (preprocessing_methods (normal_library P) a)) =
     tried P
       ([Single (grayscale P a)] @ [Single (upscaled_2x_cubic P a)] @
        [Single (binary_of P (grayscale P a) 127 255),
         Single (adaptive_of P (grayscale P a) 255 ADAPTIVE_THRESH_GAUSSIAN_C 11 2)] @ [])"
proof -
  note s3 = try_methods_step
    [where m = "decode_binarized_opencv (normal_library P)" and ms = "[]",
     OF decode_binarized_opencv_normal try_methods_nil]
  note s2 = try_methods_step
    [where m = "decode_resized_opencv (normal_library P)"
       and ms = "[decode_binarized_opencv (normal_library P)]",
     OF decode_resized_opencv_normal [OF assms] s3]
  note s1 = try_methods_step
    [where m = "decode_grayscale_opencv (normal_library P)"
       and ms = "[decode_resized_opencv (normal_library P),
                  decode_binarized_opencv (normal_library P)]",
     OF decode_grayscale_opencv_normal s2]
  show "snd (preprocessing_methods (normal_library P) a) =
     Inr (first_yield P
       ([Single (grayscale P a)] @ [Single (upscaled_2x_cubic P a)] @
        [Single (binary_of P (grayscale P a) 127 255),
         Single (adaptive_of P (grayscale P a) 255 ADAPTIVE_THRESH_GAUSSIAN_C 11 2)] @ []))"
    unfolding preprocessing_methods_def using s1(1) by (simp only: normal_library_simps if_True)
  show "strategies_run (fst (preprocessing_methods (normal_library P) a)) =
     tried P
       ([Single (grayscale P a)] @ [Single (upscaled_2x_cubic P a)] @
        [Single (binary_of P (grayscale P a) 127 255),
         Single (adaptive_of P (grayscale P a) 255 ADAPTIVE_THRESH_GAUSSIAN_C 11 2)] @ [])"
    unfolding preprocessing_methods_def using s1(2) by (simp only: normal_library_simps if_True)
qed

text \<open>A method that returns from the function when it has a result.\<close>

lemma return_or_continue:
  assumes "snd m = Inr (first_yield P c)" and "strategies_run (fst m) = tried P c"
    and "snd rest = Inr (first_yield P cs)" and "strategies_run (fst rest) = tried P cs"
  shows "snd (bind m (\<lambda>r. case r of Some result \<Rightarrow> returns (Some result) | None \<Rightarrow> rest)) =
           Inr (first_yield P (c @ cs))"
    and "strategies_run
           (fst (bind m (\<lambda>r. case r of Some result \<Rightarrow> returns (Some result) | None \<Rightarrow> rest))) =
           tried P (c @ cs)"
  using assms
  by (cases "first_yield P c";
      simp add: bind_Inr [OF assms(1)] first_yield_append tried_append strategies_run_append
        fst_returns snd_returns strategies_run_simps)+


lemma try_except_normal: "snd m = Inr x \<Longrightarrow> try_except m h = m"
  by (cases m) (simp add: try_except_def)

lemma methods_normal:
  assumes "length (shape_of P a) = 2 \<or> length (shape_of P a) = 3"
    and "\<forall>t ts. fallback_of P a = t # ts \<longrightarrow> t \<noteq> []"
  shows "snd (bind (opencv_method (normal_library P) a) (\<lambda>r1.
            case r1 of
              Some result \<Rightarrow> returns (Some result)
            | None \<Rightarrow>
            bind (pyzbar_method (normal_library P) a) (\<lambda>r2.
            case r2 of
              Some result \<Rightarrow> returns (Some result)
            | None \<Rightarrow> preprocessing_methods (normal_library P) a))) =
         Inr (first_yield P (chain_without_gray_after_upscaling P a))"
    and "strategies_run (fst (bind (opencv_method (normal_library P) a) (\<lambda>r1.
            case r1 of
              Some result \<Rightarrow> returns (Some result)
            | None \<Rightarrow>
            bind (pyzbar_method (normal_library P) a) (\<lambda>r2.
            case r2 of
              Some result \<Rightarrow> returns (Some result)
            | None \<Rightarrow> preprocessing_methods (normal_library P) a)))) =
         tried P (chain_without_gray_after_upscaling P a)"
proof -
  note inner = return_or_continue
    [OF pyzbar_method_normal [OF assms(2)] preprocessing_methods_normal [OF assms(1)]]
  note outer = return_or_continue [OF opencv_method_normal inner]
  have c: "chain_without_gray_after_upscaling P a =
      [Multi (grayscale P a), Single (grayscale P a)] @ [Fallback a] @
      [Single (grayscale P a)] @ [Single (upscaled_2x_cubic P a)] @
      [Single (binary_of P (grayscale P a) 127 255),
       Single (adaptive_of P (grayscale P a) 255 ADAPTIVE_THRESH_GAUSSIAN_C 11 2)] @ []"
    by (simp add: chain_without_gray_after_upscaling_def Let_def)
  show "snd (bind (opencv_method (normal_library P) a) (\<lambda>r1.
            case r1 of
              Some result \<Rightarrow> returns (Some result)
            | None \<Rightarrow>
            bind (pyzbar_method (normal_library P) a) (\<lambda>r2.
            case r2 of
              Some result \<Rightarrow> returns (Some result)
            | None \<Rightarrow> preprocessing_methods (normal_library P) a))) =
         Inr (first_yield P (chain_without_gray_after_upscaling P a))"
    unfolding c by (rule outer(1))
  show "strategies_run (fst (bind (opencv_method (normal_library P) a) (\<lambda>r1.
            case r1 of
              Some result \<Rightarrow> returns (Some result)
            | None \<Rightarrow>
            bind (pyzbar_method (normal_library P) a) (\<lambda>r2.
            case r2 of
              Some result \<Rightarrow> returns (Some result)
            | None \<Rightarrow> preprocessing_methods (normal_library P) a)))) =
         tried P (chain_without_gray_after_upscaling P a)"
    unfolding c by (rule outer(2))
qed

section \<open>The decode pipeline: claims C7 and C8\<close>

text \<open>
  Claim C7, as the code has it. When every library call returns normally, the image array
  has two or three dimensions, and the fallback library, if it decodes an object at all,
  decodes a non-empty text, the pipeline runs this chain in this order: the primary
  detector's multi-code call on the grayscale image, its single-code call on the same
  grayscale image, the fallback library on the image as given, and then the primary
  detector's single-code call on the grayscale image, on the image upscaled 2x with cubic
  interpolation (not converted to grayscale), on the binarization with the fixed
  threshold 127 and on the adaptive Gaussian binarization. The result is the string of the
  first strategy that yields a non-empty one, and the decode calls made are exactly the
  strategies up to and including that one: no later strategy runs.
\<close>

theorem decode_chain_order:
  assumes "a = (if pil P img then array_of P img else img)"
    and "length (shape_of P a) = 2 \<or> length (shape_of P a) = 3"
    and "\<forall>t ts. fallback_of P a = t # ts \<longrightarrow> t \<noteq> []"
  shows "snd (decode_qr_from_image (normal_library P) img) =
           Inr (first_yield P (chain_without_gray_after_upscaling P a)) \<and>
         strategies_run (fst (decode_qr_from_image (normal_library P) img)) =
           tried P (chain_without_gray_after_upscaling P a)"
proof -
  let ?conv = "if is_pil_image (normal_library P) img
               then call (NpArray img) (np_array (normal_library P) img) else returns img"
  have conv: "snd ?conv = Inr a" "strategies_run (fst ?conv) = []"
    using assms(1)
    by (simp_all add: normal_library_simps call_def returns_def strategies_run_simps)
  note m = methods_normal [OF assms(2,3)]
  let ?body = "bind ?conv (\<lambda>image_array.
          bind (opencv_method (normal_library P) image_array) (\<lambda>r1.
          case r1 of
            Some result \<Rightarrow> returns (Some result)
          | None \<Rightarrow>
          bind (pyzbar_method (normal_library P) image_array) (\<lambda>r2.
          case r2 of
            Some result \<Rightarrow> returns (Some result)
          | None \<Rightarrow> preprocessing_methods (normal_library P) image_array)))"
  have s: "snd ?body = Inr (first_yield P (chain_without_gray_after_upscaling P a))"
    by (simp only: bind_Inr [OF conv(1)] snd_conv m(1))
  have f: "strategies_run (fst ?body) = tried P (chain_without_gray_after_upscaling P a)"
    by (simp only: bind_Inr [OF conv(1)] fst_conv strategies_run_append conv(2) m(2) append_Nil)
  have d: "decode_qr_from_image (normal_library P) img = ?body"
    unfolding decode_qr_from_image_def by (rule try_except_normal [OF s])
  show ?thesis by (simp only: d s f simp_thms)
qed


theorem decode_chain_order_witness:
  "length (shape_of reads_upscaled photo) = 3 \<and>
   fallback_of reads_upscaled photo = [] \<and>
   snd (decode_qr_from_image (normal_library reads_upscaled) photo) = Inr (Some (ascii ''QR'')) \<and>
   strategies_run (fst (decode_qr_from_image (normal_library reads_upscaled) photo)) =
     [Multi (GrayOf photo), Single (GrayOf photo), Fallback photo, Single (GrayOf photo),
      Single (ResizedOf photo (1280, 960) INTER_CUBIC)]"
proof -
  have a: "photo = (if pil reads_upscaled photo then array_of reads_upscaled photo else photo)"
    by (simp add: reads_upscaled_def symbolic_library_def)
  have sh: "length (shape_of reads_upscaled photo) = 3"
    by (simp add: reads_upscaled_def symbolic_library_def photo_def)
  have fb: "fallback_of reads_upscaled photo = []"
    by (simp add: reads_upscaled_def symbolic_library_def)
  have c: "chain_without_gray_after_upscaling reads_upscaled photo =
      [Multi (GrayOf photo), Single (GrayOf photo), Fallback photo, Single (GrayOf photo),
       Single (ResizedOf photo (1280, 960) INTER_CUBIC),
       Single (BinaryOf (GrayOf photo) 127 255),
       Single (AdaptiveOf (GrayOf photo) 255 ADAPTIVE_THRESH_GAUSSIAN_C 11 2)]"
    by (simp add: chain_without_gray_after_upscaling_def grayscale_def upscaled_2x_cubic_def
        reads_upscaled_def symbolic_library_def photo_def Let_def)
  have y: "yield reads_upscaled (Multi (GrayOf photo)) = []"
    "yield reads_upscaled (Single (GrayOf photo)) = []"
    "yield reads_upscaled (Fallback photo) = []"
    "yield reads_upscaled (Single (ResizedOf photo (1280, 960) INTER_CUBIC)) = ascii ''QR''"
    by (simp_all add: yield_def reads_upscaled_def symbolic_library_def photo_def)
  have ne: "ascii ''QR'' \<noteq> []" by (simp add: ascii_def)
  from decode_chain_order [of photo reads_upscaled photo, OF a] sh fb
  have "snd (decode_qr_from_image (normal_library reads_upscaled) photo) =
           Inr (first_yield reads_upscaled (chain_without_gray_after_upscaling reads_upscaled photo)) \<and>
         strategies_run (fst (decode_qr_from_image (normal_library reads_upscaled) photo)) =
           tried reads_upscaled (chain_without_gray_after_upscaling reads_upscaled photo)"
    by simp
  then show ?thesis
    unfolding c by (simp add: first_yield_simps tried_simps y ne sh fb)
qed

text \<open>
  The chain as the specification words it converts to grayscale after the 2x upscaling.
  The code does not: with a detector that reads the photo only in the grayscale of its
  upscaled version, the specified chain yields the text at its fifth strategy, while the
  pipeline never gives that buffer to the detector and returns nothing.
\<close>

theorem decode_chain_as_specified_counterexample:
  "chain_as_specified reads_gray_of_upscaled photo ! 4 =
     Single (GrayOf (ResizedOf photo (1280, 960) INTER_CUBIC)) \<and>
   first_yield reads_gray_of_upscaled (chain_as_specified reads_gray_of_upscaled photo) =
     Some (ascii ''QR'') \<and>
   snd (decode_qr_from_image (normal_library reads_gray_of_upscaled) photo) = Inr None \<and>
   Single (GrayOf (ResizedOf photo (1280, 960) INTER_CUBIC)) \<notin>
     set (strategies_run (fst (decode_qr_from_image (normal_library reads_gray_of_upscaled) photo)))"
  by code_simp



lemma fst_bind: "fst (bind m f) = fst m @ (case snd m of Inl e \<Rightarrow> [] | Inr x \<Rightarrow> fst (f x))"
  by (cases m; cases "snd m") (simp_all add: bind_def split: prod.splits)


lemma fst_try_except:
  "fst (try_except m h) = fst m @ (case snd m of Inl e \<Rightarrow> fst (h e) | Inr x \<Rightarrow> [])"
  by (cases m; cases "snd m") (simp_all add: try_except_def split: prod.splits)





lemma guarded_log: "fst (try_except m (\<lambda>e. returns None)) = fst m"
  by (cases "snd m") (simp_all add: fst_try_except fst_returns)






















text \<open>
  The fallback library ends the chain as soon as it has decoded an object, also when the
  text of that object is empty: the empty string is returned and the preprocessing
  variants are not tried.
\<close>

lemma fallback_returns_empty_text:
  "decode_qr_from_image
     (normal_library ((symbolic_library [] [])\<lparr>fallback_of := (\<lambda>p. [[]])\<rparr>)) photo =
   ([CvtColor photo, DetectAndDecodeMulti (GrayOf photo), DetectAndDecode (GrayOf photo),
     PyzbarDecode photo], Inr (Some []))"
  by code_simp

end
